theory Spec2Isabelle
  imports Main "HOL-Library.Word" "HOL-Library.Char_ord" "HOL-Library.List_Lexorder"
begin

section \<open>Common types\<close>

text \<open>
  Go's \<open>uint64\<close> is a 64-bit word. A \<open>time.Time\<close> is an instant, here an integer; the
  zero \<open>time.Time\<close> is \<open>0\<close>. A pointer that may be \<open>nil\<close> is an \<open>option\<close>. A slice is a
  list; a \<open>nil\<close> slice and an empty slice are both \<open>[]\<close>.
\<close>

type_synonym uint64 = "64 word"
type_synonym time = int

text \<open>
  Errors are values. The sentinels the handlers compare against are constructors;
  \<open>fmt.Errorf("...: %w", err)\<close> is \<open>Wrap\<close>; \<open>errors.New\<close> is \<open>New\<close>. \<open>NotFoundError\<close>
  and \<open>NotSingularError\<close> are the ORM's errors for a query that finds no row, or more
  than one; \<open>DBError\<close> is an error of the database itself.
\<close>

datatype error =
    ErrNoRows
  | ErrBadRequest
  | ErrNoRecord
  | NotFoundError
  | NotSingularError
  | DBError string
  | New string
  | Wrap string error

text \<open>\<open>errors.Is(err, target)\<close>: \<open>err\<close> or an error it wraps is \<open>target\<close>.\<close>

fun errors_Is :: "error \<Rightarrow> error \<Rightarrow> bool" where
  "errors_Is (Wrap msg inner) target = (Wrap msg inner = target \<or> errors_Is inner target)"
| "errors_Is err target = (err = target)"

text \<open>
  A \<open>context.Context\<close>: the background context, a request's context, and the contexts
  derived from one by \<open>context.WithValue\<close> and by starting a tracing span.
\<close>

datatype ctx =
    Background
  | RequestContext nat
  | WithValue ctx string string
  | WithSpan ctx string

section \<open>The entity schema\<close>

text \<open>
  The schema package declares each entity's edges with the ORM's \<open>edge.To\<close> and
  \<open>edge.From(...).Ref(...)\<close> builders. An edge declaration is its builder (\<open>To\<close> or
  \<open>From\<close>), its name, the entity type it points to, the name of the edge it is the
  inverse of (\<open>Ref\<close>), and whether \<open>Unique()\<close> was called on it.
\<close>

datatype edge_builder = To | From

record Edge =
  builder :: edge_builder
  edge_name :: string
  edge_type :: string
  edge_ref :: "string option"
  edge_unique :: bool

definition edge_To :: "string \<Rightarrow> string \<Rightarrow> Edge" where
  "edge_To name t =
     \<lparr>builder = To, edge_name = name, edge_type = t, edge_ref = None, edge_unique = False\<rparr>"

definition edge_From :: "string \<Rightarrow> string \<Rightarrow> Edge" where
  "edge_From name t =
     \<lparr>builder = From, edge_name = name, edge_type = t, edge_ref = None, edge_unique = False\<rparr>"

definition Ref :: "string \<Rightarrow> Edge \<Rightarrow> Edge" where
  "Ref name e = e\<lparr>edge_ref := Some name\<rparr>"

definition Unique :: "Edge \<Rightarrow> Edge" where
  "Unique e = e\<lparr>edge_unique := True\<rparr>"

text \<open>\<open>Book.Edges\<close> and \<open>Author.Edges\<close>, as the schema files declare them.\<close>

definition Book_Edges :: "Edge list" where
  "Book_Edges = [edge_To ''authors'' ''Author'']"

definition Author_Edges :: "Edge list" where
  "Author_Edges = [Ref ''authors'' (edge_From ''books'' ''Book'')]"

text \<open>
  The ORM reads the cardinality of a relation off the \<open>Unique\<close> flags of an inverse
  (\<open>From\<close>) edge and of the \<open>To\<close> edge it refers to. The relation is named from the side
  of the entity that declares the \<open>To\<close> edge: \<open>O2M\<close> says that one such entity has many
  of the other and each of the other has one of it.
\<close>

datatype Rel = O2O | O2M | M2O | M2M

definition relation :: "Edge \<Rightarrow> Edge \<Rightarrow> Rel" where
  "relation assoc inv_edge =
     (if \<not> edge_unique inv_edge \<and> \<not> edge_unique assoc then M2M
      else if edge_unique inv_edge \<and> edge_unique assoc then O2O
      else if edge_unique inv_edge \<and> \<not> edge_unique assoc then O2M
      else M2O)"

text \<open>
  The inverse edges of an entity that refer to a given \<open>To\<close> edge of the entity named
  \<open>owner\<close>.
\<close>

definition inverses_of :: "string \<Rightarrow> Edge \<Rightarrow> Edge list \<Rightarrow> Edge list" where
  "inverses_of owner assoc es =
     filter (\<lambda>e. builder e = From \<and> edge_type e = owner \<and> edge_ref e = Some (edge_name assoc)) es"

section \<open>The store behind the ORM client\<close>

text \<open>
  The rows of the two tables have the columns of \<open>Book.Fields\<close> and \<open>Author.Fields\<close>.
  A nillable column (\<open>deleted_at\<close>) is an \<open>option\<close>; an optional string column reads as
  the empty string when it was never set. A \<open>gen.Book\<close> is a row of the book table; a
  \<open>gen.Author\<close> is a row of the author table together with its loaded \<open>Edges.Books\<close>.
\<close>

record gen_Book =
  b_ID :: uint64
  b_Title :: string
  b_PublishedDate :: time
  b_ImageURL :: string
  b_Description :: string
  b_CreatedAt :: time
  b_UpdatedAt :: time
  b_DeletedAt :: "time option"

record Author_row =
  a_ID :: uint64
  a_FirstName :: string
  a_MiddleName :: string
  a_LastName :: string
  a_CreatedAt :: time
  a_UpdatedAt :: time
  a_DeletedAt :: "time option"

record gen_Author =
  a_row :: Author_row
  Edges_Books :: "gen_Book list"

text \<open>
  The database: the two tables in storage order, the join table of the edge between
  them (pairs of a book ID and an author ID), and the next ID of each table's sequence.
\<close>

record DB =
  author_table :: "Author_row list"
  book_table :: "gen_Book list"
  book_authors_table :: "(uint64 \<times> uint64) list"
  author_seq :: uint64
  book_seq :: uint64

subsection \<open>Queries\<close>

text \<open>
  Modelled from the spec: the generated ORM client (\<open>ent/gen\<close>) is not under the
  sources; the spec says the repository "issues ORM queries (create, filtered list with
  pagination/sort, get-by-id, soft-delete update)". A query is the data its builder
  calls collect; the terminal calls \<open>Count\<close>, \<open>All\<close> and \<open>First\<close> run it on the store.
  Failures of the connection are not modelled: a call fails only for the reasons written
  out below.
\<close>

datatype predicate_Author =
    FirstNameContainsFold string
  | MiddleNameContainsFold string
  | LastNameContainsFold string
  | DeletedAtIsNil
  | IDEQ uint64

datatype OrderTerm = OrderAsc | OrderDesc

datatype OrderOption =
    ByFirstName OrderTerm
  | ByLastName OrderTerm
  | ByCreatedAt OrderTerm
  | ByUpdatedAt OrderTerm

record AuthorQuery =
  withBooks :: bool
  predicates :: "predicate_Author list"
  ctx_Limit :: "int option"
  ctx_Offset :: "int option"
  q_order :: "OrderOption list"

definition Author_Query :: AuthorQuery where
  "Author_Query =
     \<lparr>withBooks = False, predicates = [], ctx_Limit = None, ctx_Offset = None, q_order = []\<rparr>"

definition WithBooks :: "AuthorQuery \<Rightarrow> AuthorQuery" where
  "WithBooks q = q\<lparr>withBooks := True\<rparr>"

definition Where :: "predicate_Author list \<Rightarrow> AuthorQuery \<Rightarrow> AuthorQuery" where
  "Where ps q = q\<lparr>predicates := predicates q @ ps\<rparr>"

definition Limit :: "int \<Rightarrow> AuthorQuery \<Rightarrow> AuthorQuery" where
  "Limit n q = q\<lparr>ctx_Limit := Some n\<rparr>"

definition Offset :: "int \<Rightarrow> AuthorQuery \<Rightarrow> AuthorQuery" where
  "Offset n q = q\<lparr>ctx_Offset := Some n\<rparr>"

definition Order :: "OrderOption list \<Rightarrow> AuthorQuery \<Rightarrow> AuthorQuery" where
  "Order os q = q\<lparr>q_order := q_order q @ os\<rparr>"

text \<open>
  \<open>ContainsFold\<close>: the column's value contains the given string, letter case ignored
  (ASCII letters).
\<close>

definition to_lower :: "char \<Rightarrow> char" where
  "to_lower c =
     (if CHR ''A'' \<le> c \<and> c \<le> CHR ''Z'' then char_of (of_char c + (32::nat)) else c)"

fun has_prefix :: "string \<Rightarrow> string \<Rightarrow> bool" where
  "has_prefix s [] = True"
| "has_prefix [] (p # ps) = False"
| "has_prefix (c # s) (p # ps) = (c = p \<and> has_prefix s ps)"

fun contains :: "string \<Rightarrow> string \<Rightarrow> bool" where
  "contains [] sub = (sub = [])"
| "contains (c # s) sub = (has_prefix (c # s) sub \<or> contains s sub)"

definition ContainsFold :: "string \<Rightarrow> string \<Rightarrow> bool" where
  "ContainsFold v sub = contains (map to_lower v) (map to_lower sub)"

fun holds :: "predicate_Author \<Rightarrow> Author_row \<Rightarrow> bool" where
  "holds (FirstNameContainsFold v) a = ContainsFold (a_FirstName a) v"
| "holds (MiddleNameContainsFold v) a = ContainsFold (a_MiddleName a) v"
| "holds (LastNameContainsFold v) a = ContainsFold (a_LastName a) v"
| "holds DeletedAtIsNil a = (a_DeletedAt a = None)"
| "holds (IDEQ i) a = (a_ID a = i)"

definition selected :: "DB \<Rightarrow> AuthorQuery \<Rightarrow> Author_row list" where
  "selected db q = filter (\<lambda>a. list_all (\<lambda>p. holds p a) (predicates q)) (author_table db)"

text \<open>
  \<open>ORDER BY\<close>: the rows are compared by the first order option, ties by the next one,
  and so on; rows that tie on every option keep their storage order.
\<close>

fun before :: "OrderOption \<Rightarrow> Author_row \<Rightarrow> Author_row \<Rightarrow> bool" where
  "before (ByFirstName OrderAsc) a b = (a_FirstName a < a_FirstName b)"
| "before (ByFirstName OrderDesc) a b = (a_FirstName b < a_FirstName a)"
| "before (ByLastName OrderAsc) a b = (a_LastName a < a_LastName b)"
| "before (ByLastName OrderDesc) a b = (a_LastName b < a_LastName a)"
| "before (ByCreatedAt OrderAsc) a b = (a_CreatedAt a < a_CreatedAt b)"
| "before (ByCreatedAt OrderDesc) a b = (a_CreatedAt b < a_CreatedAt a)"
| "before (ByUpdatedAt OrderAsc) a b = (a_UpdatedAt a < a_UpdatedAt b)"
| "before (ByUpdatedAt OrderDesc) a b = (a_UpdatedAt b < a_UpdatedAt a)"

fun not_after :: "OrderOption list \<Rightarrow> Author_row \<Rightarrow> Author_row \<Rightarrow> bool" where
  "not_after [] a b = True"
| "not_after (opt # os) a b = (before opt a b \<or> (\<not> before opt b a \<and> not_after os a b))"

fun insert_row :: "OrderOption list \<Rightarrow> Author_row \<Rightarrow> Author_row list \<Rightarrow> Author_row list" where
  "insert_row os a [] = [a]"
| "insert_row os a (b # bs) = (if not_after os a b then a # b # bs else b # insert_row os a bs)"

definition order_rows :: "OrderOption list \<Rightarrow> Author_row list \<Rightarrow> Author_row list" where
  "order_rows os rows = foldr (insert_row os) rows []"

text \<open>
  \<open>LIMIT\<close> and \<open>OFFSET\<close>. A limit or offset the query does not set counts as 0. The ORM
  writes the \<open>OFFSET\<close> clause only for an offset other than 0, and then a \<open>LIMIT\<close> of
  \<open>math.MaxInt32\<close> with it; it writes the query's own \<open>LIMIT\<close> only for a limit other
  than 0, so a limit of 0 is no limit. The database rejects a negative count, skips
  \<open>OFFSET\<close> rows and returns at most \<open>LIMIT\<close> of the rest.
\<close>

definition MaxInt32 :: int where
  "MaxInt32 = 2147483647"

definition paginate :: "int option \<Rightarrow> int option \<Rightarrow> 'a list \<Rightarrow> error + 'a list" where
  "paginate lim off rows =
     (let l = (case lim of None \<Rightarrow> 0 | Some n \<Rightarrow> n);
          k = (case off of None \<Rightarrow> 0 | Some n \<Rightarrow> n);
          l' = (if l = 0 \<and> k \<noteq> 0 then MaxInt32 else l)
      in if l' < 0 then Inl (DBError ''LIMIT must not be negative'')
         else if k < 0 then Inl (DBError ''OFFSET must not be negative'')
         else Inr ((if l' = 0 then id else take (nat l'))
                    ((if k = 0 then id else drop (nat k)) rows)))"

text \<open>
  Eager loading: \<open>WithBooks\<close> fills \<open>Edges.Books\<close> with the books joined to the author;
  without it the edge stays empty.
\<close>

definition load_Books :: "DB \<Rightarrow> Author_row \<Rightarrow> gen_Book list" where
  "load_Books db a = filter (\<lambda>b. (b_ID b, a_ID a) \<in> set (book_authors_table db)) (book_table db)"

definition scan :: "DB \<Rightarrow> AuthorQuery \<Rightarrow> Author_row \<Rightarrow> gen_Author" where
  "scan db q a = \<lparr>a_row = a, Edges_Books = (if withBooks q then load_Books db a else [])\<rparr>"

definition Query_All :: "DB \<Rightarrow> AuthorQuery \<Rightarrow> error + gen_Author list" where
  "Query_All db q =
     (case paginate (ctx_Limit q) (ctx_Offset q) (order_rows (q_order q) (selected db q)) of
        Inl err \<Rightarrow> Inl err
      | Inr rows \<Rightarrow> Inr (map (scan db q) rows))"

definition Query_Count :: "DB \<Rightarrow> AuthorQuery \<Rightarrow> error + int" where
  "Query_Count db q =
     (case paginate (ctx_Limit q) (ctx_Offset q) (selected db q) of
        Inl err \<Rightarrow> Inl err
      | Inr rows \<Rightarrow> Inr (int (length rows)))"

text \<open>\<open>First\<close> runs the query with limit 1 and fails with \<open>NotFoundError\<close> on no row.\<close>

definition Query_First :: "DB \<Rightarrow> AuthorQuery \<Rightarrow> error + gen_Author" where
  "Query_First db q =
     (case Query_All db (Limit 1 q) of
        Inl err \<Rightarrow> Inl err
      | Inr [] \<Rightarrow> Inl NotFoundError
      | Inr (n # ns) \<Rightarrow> Inr n)"

text \<open>
  \<open>Author.Get(ctx, id)\<close> is the query on the ID with \<open>Only\<close>: limit 2, and an error
  unless exactly one row comes back.
\<close>

definition Author_Get :: "DB \<Rightarrow> uint64 \<Rightarrow> error + gen_Author" where
  "Author_Get db i =
     (case Query_All db (Limit 2 (Where [IDEQ i] Author_Query)) of
        Inl err \<Rightarrow> Inl err
      | Inr [] \<Rightarrow> Inl NotFoundError
      | Inr [n] \<Rightarrow> Inr n
      | Inr (n # m # ns) \<Rightarrow> Inl NotSingularError)"

subsection \<open>Writes\<close>

text \<open>
  Modelled from the spec: the builders of the generated ORM client that write.
  \<open>UpdateOneID(id)\<close> collects the columns to set; \<open>Save\<close> writes exactly those columns
  of the rows with that ID, fails with \<open>NotFoundError\<close> when there is none, and returns
  the written row. It loads no edge.
\<close>

record AuthorUpdateOne =
  uo_ID :: uint64
  set_FirstName :: "string option"
  set_MiddleName :: "string option"
  set_LastName :: "string option"
  set_DeletedAt :: "time option"

definition UpdateOneID :: "uint64 \<Rightarrow> AuthorUpdateOne" where
  "UpdateOneID i =
     \<lparr>uo_ID = i, set_FirstName = None, set_MiddleName = None, set_LastName = None,
      set_DeletedAt = None\<rparr>"

definition SetFirstName :: "string \<Rightarrow> AuthorUpdateOne \<Rightarrow> AuthorUpdateOne" where
  "SetFirstName v u = u\<lparr>set_FirstName := Some v\<rparr>"

definition SetMiddleName :: "string \<Rightarrow> AuthorUpdateOne \<Rightarrow> AuthorUpdateOne" where
  "SetMiddleName v u = u\<lparr>set_MiddleName := Some v\<rparr>"

definition SetLastName :: "string \<Rightarrow> AuthorUpdateOne \<Rightarrow> AuthorUpdateOne" where
  "SetLastName v u = u\<lparr>set_LastName := Some v\<rparr>"

definition SetDeletedAt :: "time \<Rightarrow> AuthorUpdateOne \<Rightarrow> AuthorUpdateOne" where
  "SetDeletedAt t u = u\<lparr>set_DeletedAt := Some t\<rparr>"

definition mutate :: "AuthorUpdateOne \<Rightarrow> Author_row \<Rightarrow> Author_row" where
  "mutate u a =
     a\<lparr>a_FirstName := (case set_FirstName u of None \<Rightarrow> a_FirstName a | Some v \<Rightarrow> v),
       a_MiddleName := (case set_MiddleName u of None \<Rightarrow> a_MiddleName a | Some v \<Rightarrow> v),
       a_LastName := (case set_LastName u of None \<Rightarrow> a_LastName a | Some v \<Rightarrow> v),
       a_DeletedAt := (case set_DeletedAt u of None \<Rightarrow> a_DeletedAt a | Some t \<Rightarrow> Some t)\<rparr>"

definition UpdateOne_Save :: "AuthorUpdateOne \<Rightarrow> DB \<Rightarrow> (error + gen_Author) \<times> DB" where
  "UpdateOne_Save u db =
     (case filter (\<lambda>a. a_ID a = uo_ID u) (author_table db) of
        [] \<Rightarrow> (Inl NotFoundError, db)
      | a # as \<Rightarrow>
          (Inr \<lparr>a_row = mutate u a, Edges_Books = []\<rparr>,
           db\<lparr>author_table := map (\<lambda>a. if a_ID a = uo_ID u then mutate u a else a) (author_table db)\<rparr>))"

text \<open>
  Modelled from the spec: the create builders. A created row takes the next ID of its
  table's sequence (a key that is already there is the database's error); the columns
  the builder did not set take their defaults, and \<open>created_at\<close> and \<open>updated_at\<close> are
  filled in by the database with its current time, so the entity that \<open>Save\<close> returns
  does not carry them. \<open>AddBooks\<close> adds a row to the join table for each book.
\<close>

record BookCreate =
  bc_Title :: string
  bc_Description :: string
  bc_PublishedDate :: time

record AuthorCreate =
  ac_FirstName :: string
  ac_MiddleName :: "string option"
  ac_LastName :: string
  ac_Books :: "uint64 list"

definition BookCreate_Save :: "BookCreate \<Rightarrow> time \<Rightarrow> DB \<Rightarrow> (error + gen_Book) \<times> DB" where
  "BookCreate_Save c db_now db =
     (if book_seq db \<in> b_ID ` set (book_table db) then (Inl (DBError ''duplicate key''), db)
      else
        let node = \<lparr>b_ID = book_seq db, b_Title = bc_Title c,
                    b_PublishedDate = bc_PublishedDate c, b_ImageURL = [],
                    b_Description = bc_Description c, b_CreatedAt = 0, b_UpdatedAt = 0,
                    b_DeletedAt = None\<rparr>
        in (Inr node,
            db\<lparr>book_table := book_table db @ [node\<lparr>b_CreatedAt := db_now, b_UpdatedAt := db_now\<rparr>],
               book_seq := book_seq db + 1\<rparr>))"

fun CreateBulk_Save :: "BookCreate list \<Rightarrow> time \<Rightarrow> DB \<Rightarrow> (error + gen_Book list) \<times> DB" where
  "CreateBulk_Save [] db_now db = (Inr [], db)"
| "CreateBulk_Save (c # cs) db_now db =
     (case BookCreate_Save c db_now db of
        (Inl err, db1) \<Rightarrow> (Inl err, db1)
      | (Inr node, db1) \<Rightarrow>
          (case CreateBulk_Save cs db_now db1 of
             (Inl err, db2) \<Rightarrow> (Inl err, db2)
           | (Inr nodes, db2) \<Rightarrow> (Inr (node # nodes), db2)))"

definition AuthorCreate_Save :: "AuthorCreate \<Rightarrow> time \<Rightarrow> DB \<Rightarrow> (error + gen_Author) \<times> DB" where
  "AuthorCreate_Save c db_now db =
     (if author_seq db \<in> a_ID ` set (author_table db) then (Inl (DBError ''duplicate key''), db)
      else
        let node = \<lparr>a_ID = author_seq db, a_FirstName = ac_FirstName c,
                    a_MiddleName = (case ac_MiddleName c of None \<Rightarrow> [] | Some m \<Rightarrow> m),
                    a_LastName = ac_LastName c, a_CreatedAt = 0, a_UpdatedAt = 0,
                    a_DeletedAt = None\<rparr>
        in (Inr \<lparr>a_row = node, Edges_Books = []\<rparr>,
            db\<lparr>author_table := author_table db @ [node\<lparr>a_CreatedAt := db_now, a_UpdatedAt := db_now\<rparr>],
               book_authors_table := book_authors_table db @ map (\<lambda>b. (b, author_seq db)) (ac_Books c),
               author_seq := author_seq db + 1\<rparr>))"

section \<open>Book: requests, use-case\<close>

text \<open>\<open>book.CreateRequest\<close> and \<open>book.UpdateRequest\<close>.\<close>

record book_CreateRequest =
  cr_Title :: string
  cr_PublishedDate :: string
  cr_ImageURL :: string
  cr_Description :: string

record book_UpdateRequest =
  ur_ID :: uint64
  ur_Title :: string
  ur_PublishedDate :: string
  ur_ImageURL :: string
  ur_Description :: string

text \<open>
  \<open>book.Schema\<close>, the plain response struct of a book, with the fields the repositories
  fill in.
\<close>

record book_Schema =
  bs_ID :: uint64
  bs_Title :: string
  bs_PublishedDate :: time
  bs_ImageURL :: string
  bs_Description :: string
  bs_CreatedAt :: time
  bs_UpdatedAt :: time

text \<open>
  The interface \<open>repository.Book\<close>, as the use-case sees it. The implementation is a
  parameter: each method takes the context and its argument, runs on the state \<open>'st\<close>
  behind the repository, and returns Go's result tuple with the state after the call.
  \<open>'f\<close> is \<open>book.Filter\<close>.
\<close>

record ('f, 'st) repository_Book =
  repo_Create :: "ctx \<Rightarrow> book_CreateRequest \<Rightarrow> 'st \<Rightarrow> (uint64 \<times> error option) \<times> 'st"
  repo_List :: "ctx \<Rightarrow> 'f \<Rightarrow> 'st \<Rightarrow> (book_Schema list \<times> error option) \<times> 'st"
  repo_Read :: "ctx \<Rightarrow> uint64 \<Rightarrow> 'st \<Rightarrow> (book_Schema option \<times> error option) \<times> 'st"
  repo_Update :: "ctx \<Rightarrow> book_UpdateRequest \<Rightarrow> 'st \<Rightarrow> error option \<times> 'st"
  repo_Delete :: "ctx \<Rightarrow> uint64 \<Rightarrow> 'st \<Rightarrow> error option \<times> 'st"
  repo_Search :: "ctx \<Rightarrow> 'f \<Rightarrow> 'st \<Rightarrow> (book_Schema list \<times> error option) \<times> 'st"

text \<open>\<open>BookUseCase\<close>: the struct holds the repository.\<close>

record ('f, 'st) BookUseCase =
  bookRepo :: "('f, 'st) repository_Book"

definition BookUseCase_Create ::
  "('f, 'st) BookUseCase \<Rightarrow> ctx \<Rightarrow> book_CreateRequest \<Rightarrow> 'st
    \<Rightarrow> (book_Schema option \<times> error option) \<times> 'st" where
  "BookUseCase_Create u ctx book st =
     (case repo_Create (bookRepo u) ctx book st of
        ((bookID, Some err), st1) \<Rightarrow> ((None, Some err), st1)
      | ((bookID, None), st1) \<Rightarrow>
          (case repo_Read (bookRepo u) ctx bookID st1 of
             ((bookFound, Some err), st2) \<Rightarrow> ((None, Some err), st2)
           | ((bookFound, None), st2) \<Rightarrow> ((bookFound, None), st2)))"

definition BookUseCase_List ::
  "('f, 'st) BookUseCase \<Rightarrow> ctx \<Rightarrow> 'f \<Rightarrow> 'st \<Rightarrow> (book_Schema list \<times> error option) \<times> 'st" where
  "BookUseCase_List u ctx f st = repo_List (bookRepo u) ctx f st"

definition BookUseCase_Read ::
  "('f, 'st) BookUseCase \<Rightarrow> ctx \<Rightarrow> uint64 \<Rightarrow> 'st
    \<Rightarrow> (book_Schema option \<times> error option) \<times> 'st" where
  "BookUseCase_Read u ctx bookID st = repo_Read (bookRepo u) ctx bookID st"

definition BookUseCase_Update ::
  "('f, 'st) BookUseCase \<Rightarrow> ctx \<Rightarrow> book_UpdateRequest \<Rightarrow> 'st
    \<Rightarrow> (book_Schema option \<times> error option) \<times> 'st" where
  "BookUseCase_Update u ctx book st =
     (case repo_Update (bookRepo u) ctx book st of
        (Some err, st1) \<Rightarrow> ((None, Some err), st1)
      | (None, st1) \<Rightarrow> repo_Read (bookRepo u) ctx (ur_ID book) st1)"

definition BookUseCase_Delete ::
  "('f, 'st) BookUseCase \<Rightarrow> ctx \<Rightarrow> uint64 \<Rightarrow> 'st \<Rightarrow> error option \<times> 'st" where
  "BookUseCase_Delete u ctx bookID st = repo_Delete (bookRepo u) ctx bookID st"

definition BookUseCase_Search ::
  "('f, 'st) BookUseCase \<Rightarrow> ctx \<Rightarrow> 'f \<Rightarrow> 'st \<Rightarrow> (book_Schema list \<times> error option) \<times> 'st" where
  "BookUseCase_Search u ctx req st = repo_Search (bookRepo u) ctx req st"

section \<open>Author: requests, repository\<close>

text \<open>
  \<open>author.CreateRequest\<close> (with the books to create along), \<open>author.UpdateRequest\<close>,
  \<open>author.Filter\<close> with the fields of its \<open>Base\<close> that the repository reads, and
  \<open>author.Schema\<close>, as the repository uses them. The \<open>Sort\<close> map is the list of its
  entries in the order the \<open>range\<close> loop visits them, which Go leaves open.
\<close>

record author_Book =
  ab_Title :: string
  ab_Description :: string
  ab_PublishedDate :: string

record author_CreateRequest =
  acr_FirstName :: string
  acr_MiddleName :: string
  acr_LastName :: string
  acr_Books :: "author_Book list"

record author_UpdateRequest =
  aur_ID :: uint64
  aur_FirstName :: string
  aur_MiddleName :: string
  aur_LastName :: string

record author_Filter =
  f_Limit :: int
  f_Offset :: int
  f_Sort :: "(string \<times> string) list"
  f_FirstName :: string
  f_MiddleName :: string
  f_LastName :: string

record author_Schema =
  s_ID :: uint64
  s_FirstName :: string
  s_MiddleName :: string
  s_LastName :: string
  s_CreatedAt :: time
  s_UpdatedAt :: time
  s_DeletedAt :: "time option"
  s_Books :: "book_Schema list"

text \<open>
  The loop that every method of the repository runs over a list of \<open>gen.Book\<close>,
  appending one \<open>book.Schema\<close> for each: its body, and the loop as a \<open>map\<close>.
\<close>

definition to_book_Schema :: "gen_Book \<Rightarrow> book_Schema" where
  "to_book_Schema b =
     \<lparr>bs_ID = b_ID b, bs_Title = b_Title b, bs_PublishedDate = b_PublishedDate b,
      bs_ImageURL = b_ImageURL b, bs_Description = b_Description b,
      bs_CreatedAt = b_CreatedAt b, bs_UpdatedAt = b_UpdatedAt b\<rparr>"

definition to_author_Schema :: "Author_row \<Rightarrow> book_Schema list \<Rightarrow> author_Schema" where
  "to_author_Schema a bs =
     \<lparr>s_ID = a_ID a, s_FirstName = a_FirstName a, s_MiddleName = a_MiddleName a,
      s_LastName = a_LastName a, s_CreatedAt = a_CreatedAt a, s_UpdatedAt = a_UpdatedAt a,
      s_DeletedAt = a_DeletedAt a, s_Books = bs\<rparr>"

text \<open>
  \<open>repository.Create\<close>. \<open>parseTime.Parse\<close> is a parameter; \<open>db_now\<close> is the database's
  clock at the inserts.
\<close>

definition author_repository_Create ::
  "(string \<Rightarrow> time) \<Rightarrow> time \<Rightarrow> ctx \<Rightarrow> author_CreateRequest option \<Rightarrow> DB
    \<Rightarrow> (author_Schema option \<times> error option) \<times> DB" where
  "author_repository_Create parseTime_Parse db_now ctx request db =
     (case request of
        None \<Rightarrow> ((None, Some (New ''request cannot be nil'')), db)
      | Some req \<Rightarrow>
          (let bulk = map (\<lambda>b. \<lparr>bc_Title = ab_Title b, bc_Description = ab_Description b,
                                 bc_PublishedDate = parseTime_Parse (ab_PublishedDate b)\<rparr>)
                        (acr_Books req)
           in case CreateBulk_Save bulk db_now db of
                (Inl err, db1) \<Rightarrow>
                  ((None, Some (Wrap ''author.repository.Create bulk books'' err)), db1)
              | (Inr books, db1) \<Rightarrow>
                  (case AuthorCreate_Save
                          \<lparr>ac_FirstName = acr_FirstName req,
                           ac_MiddleName = Some (acr_MiddleName req),
                           ac_LastName = acr_LastName req,
                           ac_Books = map b_ID books\<rparr> db_now db1 of
                     (Inl err, db2) \<Rightarrow> ((None, Some (Wrap ''author.repository.Create'' err)), db2)
                   | (Inr create, db2) \<Rightarrow>
                       (case Author_Get db2 (a_ID (a_row create)) of
                          Inl err \<Rightarrow> ((None, Some (Wrap ''author not found'' err)), db2)
                        | Inr created \<Rightarrow>
                            ((Some (to_author_Schema (a_row created) (map to_book_Schema books)),
                              None), db2)))))"

text \<open>
  \<open>authorOrder\<close>: the loop over the entries of the sort map, appending to \<open>orderFunc\<close>.
  The \<open>Field...\<close> constants are the column names of the schema.
\<close>

definition FieldFirstName :: string where "FieldFirstName = ''first_name''"
definition FieldLastName :: string where "FieldLastName = ''last_name''"
definition FieldCreatedAt :: string where "FieldCreatedAt = ''created_at''"
definition FieldUpdatedAt :: string where "FieldUpdatedAt = ''updated_at''"

fun authorOrder_loop :: "OrderOption list \<Rightarrow> (string \<times> string) list \<Rightarrow> OrderOption list" where
  "authorOrder_loop orderFunc [] = orderFunc"
| "authorOrder_loop orderFunc ((col, ord) # sorts) =
     authorOrder_loop
       (if col = FieldFirstName then
          (if ord = ''ASC'' then orderFunc @ [ByFirstName OrderAsc]
           else orderFunc @ [ByFirstName OrderDesc])
        else if col = FieldLastName then
          (if ord = ''ASC'' then orderFunc @ [ByLastName OrderAsc]
           else orderFunc @ [ByLastName OrderDesc])
        else if col = FieldCreatedAt then
          (if ord = ''ASC'' then orderFunc @ [ByCreatedAt OrderAsc]
           else orderFunc @ [ByCreatedAt OrderDesc])
        else if col = FieldUpdatedAt then
          (if ord = ''ASC'' then orderFunc @ [ByUpdatedAt OrderAsc]
           else orderFunc @ [ByUpdatedAt OrderDesc])
        else orderFunc)
       sorts"

definition authorOrder :: "(string \<times> string) list \<Rightarrow> OrderOption list" where
  "authorOrder sorts = authorOrder_loop [] sorts"

text \<open>
  \<open>repository.List\<close>: the name predicates, the query that counts and the query that
  fetches, as the method builds them, and the method itself.
\<close>

definition predicateUser :: "author_Filter \<Rightarrow> predicate_Author list" where
  "predicateUser f =
     (let p0 = [];
          p1 = (if f_FirstName f \<noteq> [] then p0 @ [FirstNameContainsFold (f_FirstName f)] else p0);
          p2 = (if f_MiddleName f \<noteq> [] then p1 @ [MiddleNameContainsFold (f_MiddleName f)] else p1);
          p3 = (if f_LastName f \<noteq> [] then p2 @ [LastNameContainsFold (f_LastName f)] else p2)
      in p3)"

definition List_total_query :: AuthorQuery where
  "List_total_query = Where [DeletedAtIsNil] Author_Query"

definition List_authors_query :: "author_Filter \<Rightarrow> AuthorQuery" where
  "List_authors_query f =
     Order (authorOrder (f_Sort f))
       (Offset (f_Offset f)
         (Limit (f_Limit f)
           (Where [DeletedAtIsNil]
             (Where (predicateUser f)
               (WithBooks Author_Query)))))"

definition author_repository_List ::
  "ctx \<Rightarrow> author_Filter \<Rightarrow> DB \<Rightarrow> author_Schema list \<times> int \<times> error option" where
  "author_repository_List ctx f db =
     (case Query_Count db List_total_query of
        Inl err \<Rightarrow> ([], 0, Some (Wrap ''get total author records'' err))
      | Inr total_count \<Rightarrow>
          (case Query_All db (List_authors_query f) of
             Inl err \<Rightarrow> ([], 0, Some (Wrap ''get author records'' err))
           | Inr authors \<Rightarrow>
               (map (\<lambda>a. to_author_Schema (a_row a) (map to_book_Schema (Edges_Books a))) authors,
                total_count, None)))"

text \<open>\<open>repository.Read\<close>.\<close>

definition Read_query :: "uint64 \<Rightarrow> AuthorQuery" where
  "Read_query i = Where [DeletedAtIsNil] (Where [IDEQ i] (WithBooks Author_Query))"

definition author_repository_Read ::
  "ctx \<Rightarrow> uint64 \<Rightarrow> DB \<Rightarrow> author_Schema option \<times> error option" where
  "author_repository_Read ctx i db =
     (case Query_First db (Read_query i) of
        Inl err \<Rightarrow> (None, Some (Wrap ''error retrieving book'' err))
      | Inr found \<Rightarrow>
          (Some (to_author_Schema (a_row found) (map to_book_Schema (Edges_Books found))), None))"

text \<open>\<open>repository.Update\<close>.\<close>

definition author_repository_Update ::
  "ctx \<Rightarrow> author_UpdateRequest \<Rightarrow> DB \<Rightarrow> (author_Schema option \<times> error option) \<times> DB" where
  "author_repository_Update ctx a db =
     (case UpdateOne_Save
             (SetLastName (aur_LastName a)
               (SetMiddleName (aur_MiddleName a)
                 (SetFirstName (aur_FirstName a)
                   (UpdateOneID (aur_ID a))))) db of
        (Inl err, db1) \<Rightarrow> ((None, Some err), db1)
      | (Inr updated, db1) \<Rightarrow>
          ((Some (to_author_Schema (a_row updated) (map to_book_Schema (Edges_Books updated))),
            None), db1))"

text \<open>\<open>repository.Delete\<close>; \<open>now\<close> is what \<open>time.Now()\<close> returns.\<close>

definition author_repository_Delete :: "time \<Rightarrow> ctx \<Rightarrow> uint64 \<Rightarrow> DB \<Rightarrow> error option \<times> DB" where
  "author_repository_Delete now ctx authorID db =
     (case UpdateOne_Save (SetDeletedAt now (UpdateOneID authorID)) db of
        (Inl err, db1) \<Rightarrow> (Some err, db1)
      | (Inr updated, db1) \<Rightarrow> (None, db1))"

section \<open>HTTP handlers\<close>

text \<open>
  What a handler reads of the \<open>http.Request\<close>: its context, its body and its URL.
\<close>

record http_Request =
  r_Context :: ctx
  r_Body :: string
  r_URL :: string

text \<open>
  Modelled from the spec: the \<open>respond\<close> utility is not under the sources; the spec
  says the handler "translates use-case results into HTTP status codes and JSON
  responses". A response is the status written and the payload encoded: \<open>respond.Error\<close>
  writes one error (or \<open>nil\<close>), \<open>respond.Errors\<close> a list of messages, \<open>respond.Json\<close> a
  value.
\<close>

datatype 'a payload =
    ErrorPayload "error option"
  | ErrorsPayload "string list"
  | JsonPayload 'a

record 'a response =
  status :: nat
  payload :: "'a payload"

definition StatusOK :: nat where "StatusOK = 200"
definition StatusCreated :: nat where "StatusCreated = 201"
definition StatusBadRequest :: nat where "StatusBadRequest = 400"
definition StatusInternalServerError :: nat where "StatusInternalServerError = 500"

definition respond_Error :: "nat \<Rightarrow> error option \<Rightarrow> 'a response" where
  "respond_Error code err = \<lparr>status = code, payload = ErrorPayload err\<rparr>"

definition respond_Errors :: "nat \<Rightarrow> string list \<Rightarrow> 'a response" where
  "respond_Errors code errs = \<lparr>status = code, payload = ErrorsPayload errs\<rparr>"

definition respond_Json :: "nat \<Rightarrow> 'a \<Rightarrow> 'a response" where
  "respond_Json code v = \<lparr>status = code, payload = JsonPayload v\<rparr>"

text \<open>\<open>respond.Standard\<close> and its \<open>respond.Meta\<close>.\<close>

record respond_Meta =
  Size :: int
  Total :: int

record 'd respond_Standard =
  Data :: 'd
  Meta :: respond_Meta

text \<open>
  The interfaces \<open>usecase.Book\<close> and \<open>usecase.Author\<close> that the handlers call, with the
  state \<open>'st\<close> behind them, and the \<open>Handler\<close> struct of both handler packages.
\<close>

record ('f, 'st) usecase_Book =
  uc_Create :: "ctx \<Rightarrow> book_CreateRequest \<Rightarrow> 'st \<Rightarrow> (book_Schema option \<times> error option) \<times> 'st"
  uc_List :: "ctx \<Rightarrow> 'f \<Rightarrow> 'st \<Rightarrow> (book_Schema list \<times> error option) \<times> 'st"
  uc_Read :: "ctx \<Rightarrow> uint64 \<Rightarrow> 'st \<Rightarrow> (book_Schema option \<times> error option) \<times> 'st"
  uc_Update :: "ctx \<Rightarrow> book_UpdateRequest \<Rightarrow> 'st \<Rightarrow> (book_Schema option \<times> error option) \<times> 'st"
  uc_Delete :: "ctx \<Rightarrow> uint64 \<Rightarrow> 'st \<Rightarrow> error option \<times> 'st"
  uc_Search :: "ctx \<Rightarrow> 'f \<Rightarrow> 'st \<Rightarrow> (book_Schema list \<times> error option) \<times> 'st"

record 'st usecase_Author =
  auc_Create :: "ctx \<Rightarrow> author_CreateRequest \<Rightarrow> 'st \<Rightarrow> (author_Schema option \<times> error option) \<times> 'st"
  auc_List :: "ctx \<Rightarrow> author_Filter \<Rightarrow> 'st \<Rightarrow> (author_Schema list \<times> int \<times> error option) \<times> 'st"
  auc_Read :: "ctx \<Rightarrow> uint64 \<Rightarrow> 'st \<Rightarrow> (author_Schema option \<times> error option) \<times> 'st"
  auc_Update :: "ctx \<Rightarrow> author_UpdateRequest \<Rightarrow> 'st \<Rightarrow> (author_Schema option \<times> error option) \<times> 'st"
  auc_Delete :: "ctx \<Rightarrow> uint64 \<Rightarrow> 'st \<Rightarrow> error option \<times> 'st"

record ('u, 'v) Handler =
  useCase :: 'u
  validate :: 'v

text \<open>\<open>BookUseCase\<close> implements \<open>usecase.Book\<close>.\<close>

definition usecase_New :: "('f, 'st) repository_Book \<Rightarrow> ('f, 'st) usecase_Book" where
  "usecase_New repo =
     (let u = \<lparr>bookRepo = repo\<rparr>
      in \<lparr>uc_Create = BookUseCase_Create u, uc_List = BookUseCase_List u,
          uc_Read = BookUseCase_Read u, uc_Update = BookUseCase_Update u,
          uc_Delete = BookUseCase_Delete u, uc_Search = BookUseCase_Search u\<rparr>)"

text \<open>
  The book handler's \<open>Create\<close>. The JSON decoder (from the body to the request or an
  error), \<open>validate.Validate\<close> (\<open>None\<close> is its \<open>nil\<close> result) and \<open>book.Resource\<close> are
  parameters.
\<close>

definition book_Handler_Create ::
  "(string \<Rightarrow> error + book_CreateRequest) \<Rightarrow> ('v \<Rightarrow> book_CreateRequest \<Rightarrow> string list option)
    \<Rightarrow> (book_Schema option \<Rightarrow> 'res) \<Rightarrow> (('f, 'st) usecase_Book, 'v) Handler
    \<Rightarrow> http_Request \<Rightarrow> 'st \<Rightarrow> 'res response \<times> 'st" where
  "book_Handler_Create json_Decode validate_Validate book_Resource h r st =
     (case json_Decode (r_Body r) of
        Inl err \<Rightarrow> (respond_Error StatusBadRequest None, st)
      | Inr bookRequest \<Rightarrow>
          (case validate_Validate (validate h) bookRequest of
             Some errs \<Rightarrow> (respond_Errors StatusBadRequest errs, st)
           | None \<Rightarrow>
               (case uc_Create (useCase h) (r_Context r) bookRequest st of
                  ((bk, Some err), st1) \<Rightarrow>
                    (if err = ErrNoRows
                     then (respond_Error StatusBadRequest (Some ErrBadRequest), st1)
                     else (respond_Error StatusInternalServerError (Some err), st1))
                | ((bk, None), st1) \<Rightarrow> (respond_Json StatusCreated (book_Resource bk), st1))))"

text \<open>
  The book handler's \<open>Get\<close>. \<open>param.UInt64\<close> (the parsed path parameter and an error) and
  \<open>book.Resource\<close> are parameters.
\<close>

definition book_Handler_Get ::
  "(http_Request \<Rightarrow> string \<Rightarrow> uint64 \<times> error option) \<Rightarrow> (book_Schema option \<Rightarrow> 'res)
    \<Rightarrow> (('f, 'st) usecase_Book, 'v) Handler \<Rightarrow> http_Request \<Rightarrow> 'st \<Rightarrow> 'res response \<times> 'st" where
  "book_Handler_Get param_UInt64 book_Resource h r st =
     (case param_UInt64 r ''bookID'' of
        (bookID, Some err) \<Rightarrow> (respond_Error StatusBadRequest (Some ErrBadRequest), st)
      | (bookID, None) \<Rightarrow>
          (case uc_Read (useCase h) Background bookID st of
             ((b, Some err), st1) \<Rightarrow>
               (if errors_Is err ErrNoRows
                then (respond_Error StatusBadRequest
                        (Some (New ''no book is found for this ID'')), st1)
                else (respond_Error StatusInternalServerError None, st1))
           | ((b, None), st1) \<Rightarrow> (respond_Json StatusOK (book_Resource b), st1)))"

text \<open>The author handler's \<open>Create\<close>, with the same parameters for the author types.\<close>

definition author_Handler_Create ::
  "(string \<Rightarrow> error + author_CreateRequest)
    \<Rightarrow> ('v \<Rightarrow> author_CreateRequest \<Rightarrow> string list option)
    \<Rightarrow> (author_Schema option \<Rightarrow> 'res) \<Rightarrow> ('st usecase_Author, 'v) Handler
    \<Rightarrow> http_Request \<Rightarrow> 'st \<Rightarrow> 'res response \<times> 'st" where
  "author_Handler_Create json_Decode validate_Validate author_Resource h r st =
     (case json_Decode (r_Body r) of
        Inl err \<Rightarrow> (respond_Error StatusBadRequest (Some err), st)
      | Inr req \<Rightarrow>
          (case validate_Validate (validate h) req of
             Some errs \<Rightarrow> (respond_Errors StatusBadRequest errs, st)
           | None \<Rightarrow>
               (case auc_Create (useCase h) (r_Context r) req st of
                  ((create, Some err), st1) \<Rightarrow>
                    (if errors_Is err ErrNoRows
                     then (respond_Error StatusBadRequest (Some ErrBadRequest), st1)
                     else (respond_Error StatusInternalServerError (Some err), st1))
                | ((create, None), st1) \<Rightarrow>
                    (respond_Json StatusCreated (author_Resource create), st1))))"

text \<open>
  The author handler's \<open>List\<close>. \<open>author.Filters\<close> (from the URL's query to the filter)
  and \<open>author.Resources\<close> are parameters.
\<close>

definition author_Handler_List ::
  "(string \<Rightarrow> author_Filter) \<Rightarrow> (author_Schema list \<Rightarrow> 'res) \<Rightarrow> ('st usecase_Author, 'v) Handler
    \<Rightarrow> http_Request \<Rightarrow> 'st \<Rightarrow> 'res respond_Standard response \<times> 'st" where
  "author_Handler_List author_Filters author_Resources h r st =
     (let ctx = WithSpan (r_Context r) ''AuthorList'';
          filters = author_Filters (r_URL r)
      in case auc_List (useCase h) ctx filters st of
           ((authors, total_count, Some err), st1) \<Rightarrow>
             (respond_Error StatusInternalServerError (Some err), st1)
         | ((authors, total_count, None), st1) \<Rightarrow>
             (respond_Json StatusOK
                \<lparr>Data = author_Resources authors,
                 Meta = \<lparr>Size = int (length authors), Total = total_count\<rparr>\<rparr>, st1))"

section \<open>The list query in the words of the specification\<close>

text \<open>
  The translation of one entry of the sort map, in the words of the specification:
  an entry on one of the four columns gives one ordering on that column, ascending when
  its direction is \<open>ASC\<close> and descending otherwise; an entry on another key gives none.
\<close>

definition sort_entry_order :: "string \<times> string \<Rightarrow> OrderOption list" where
  "sort_entry_order e =
     (let dir = (if snd e = ''ASC'' then OrderAsc else OrderDesc)
      in if fst e = ''first_name'' then [ByFirstName dir]
         else if fst e = ''last_name'' then [ByLastName dir]
         else if fst e = ''created_at'' then [ByCreatedAt dir]
         else if fst e = ''updated_at'' then [ByUpdatedAt dir]
         else [])"

text \<open>
  The rows that a filter asks for, in the words of the specification: not deleted, and
  matching each name the filter gives.
\<close>

definition wanted :: "author_Filter \<Rightarrow> Author_row \<Rightarrow> bool" where
  "wanted f a =
     ((f_FirstName f = [] \<or> ContainsFold (a_FirstName a) (f_FirstName f))
      \<and> (f_MiddleName f = [] \<or> ContainsFold (a_MiddleName a) (f_MiddleName f))
      \<and> (f_LastName f = [] \<or> ContainsFold (a_LastName a) (f_LastName f))
      \<and> a_DeletedAt a = None)"

section \<open>Sequences of repository calls\<close>

text \<open>
  An author is soft-deleted in a store when a row has its ID and every row with its ID
  has a \<open>deleted_at\<close>. The writes of the author repository, as calls, and the store
  after a sequence of them.
\<close>

definition soft_deleted :: "DB \<Rightarrow> uint64 \<Rightarrow> bool" where
  "soft_deleted db i =
     (list_ex (\<lambda>a. a_ID a = i) (author_table db)
      \<and> list_all (\<lambda>a. a_ID a = i \<longrightarrow> a_DeletedAt a \<noteq> None) (author_table db))"

datatype author_call =
    Create "author_CreateRequest option" time
  | Update author_UpdateRequest
  | Delete uint64 time

fun call :: "(string \<Rightarrow> time) \<Rightarrow> author_call \<Rightarrow> DB \<Rightarrow> DB" where
  "call p (Create request db_now) db = snd (author_repository_Create p db_now Background request db)"
| "call p (Update a) db = snd (author_repository_Update Background a db)"
| "call p (Delete i now) db = snd (author_repository_Delete now Background i db)"

definition calls :: "(string \<Rightarrow> time) \<Rightarrow> author_call list \<Rightarrow> DB \<Rightarrow> DB" where
  "calls p cs db = fold (call p) cs db"

section \<open>Examples\<close>

text \<open>
  A store to run the repository on: two authors, the first with two books.
\<close>

definition example_db :: DB where
  "example_db =
     \<lparr>author_table =
        [\<lparr>a_ID = 1, a_FirstName = ''Ann'', a_MiddleName = [], a_LastName = ''Lee'',
          a_CreatedAt = 10, a_UpdatedAt = 10, a_DeletedAt = None\<rparr>,
         \<lparr>a_ID = 2, a_FirstName = ''Bob'', a_MiddleName = ''J'', a_LastName = ''Ray'',
          a_CreatedAt = 20, a_UpdatedAt = 20, a_DeletedAt = None\<rparr>],
      book_table =
        [\<lparr>b_ID = 1, b_Title = ''T1'', b_PublishedDate = 5, b_ImageURL = [],
          b_Description = ''D1'', b_CreatedAt = 10, b_UpdatedAt = 10, b_DeletedAt = None\<rparr>,
         \<lparr>b_ID = 2, b_Title = ''T2'', b_PublishedDate = 6, b_ImageURL = [],
          b_Description = ''D2'', b_CreatedAt = 10, b_UpdatedAt = 10, b_DeletedAt = None\<rparr>],
      book_authors_table = [(1, 1), (2, 1)],
      author_seq = 3, book_seq = 3\<rparr>"

text \<open>
  A filter on the first name, and a request that updates the first author.
\<close>

definition example_filter :: author_Filter where
  "example_filter =
     \<lparr>f_Limit = 30, f_Offset = 0, f_Sort = [], f_FirstName = ''an'', f_MiddleName = [],
      f_LastName = []\<rparr>"

definition example_update :: author_UpdateRequest where
  "example_update =
     \<lparr>aur_ID = 1, aur_FirstName = ''Anna'', aur_MiddleName = ''M'', aur_LastName = ''Lee''\<rparr>"

text \<open>
  A filter with a sort map, on the last name and on a key that is no column.
\<close>

definition example_sorted_filter :: author_Filter where
  "example_sorted_filter =
     \<lparr>f_Limit = 1, f_Offset = 0, f_Sort = [(''last_name'', ''desc''), (''age'', ''ASC'')],
      f_FirstName = [], f_MiddleName = [], f_LastName = []\<rparr>"

text \<open>
  An author use-case that forwards every call to the author repository on the store,
  as the specification describes the use-case layer, with a handler on it and a request.
\<close>

definition example_usecase :: "DB usecase_Author" where
  "example_usecase =
     \<lparr>auc_Create = (\<lambda>ctx req db. author_repository_Create (\<lambda>s. 0) 50 ctx (Some req) db),
      auc_List = (\<lambda>ctx f db. (author_repository_List ctx f db, db)),
      auc_Read = (\<lambda>ctx i db. (author_repository_Read ctx i db, db)),
      auc_Update = author_repository_Update,
      auc_Delete = author_repository_Delete 50\<rparr>"

definition example_handler :: "(DB usecase_Author, unit) Handler" where
  "example_handler = \<lparr>useCase = example_usecase, validate = ()\<rparr>"

definition example_request :: http_Request where
  "example_request = \<lparr>r_Context = RequestContext 0, r_Body = [], r_URL = ''first_name=an''\<rparr>"

text \<open>
  Use-cases whose state counts the calls made to them. The book use-case finds book 1
  only, fails on book 2 with an error of the database and on any other with a wrapped
  \<open>sql.ErrNoRows\<close>.
\<close>

definition example_book :: book_Schema where
  "example_book =
     \<lparr>bs_ID = 1, bs_Title = ''T1'', bs_PublishedDate = 5, bs_ImageURL = [],
      bs_Description = ''D1'', bs_CreatedAt = 10, bs_UpdatedAt = 10\<rparr>"

definition counting_book_usecase :: "(unit, nat) usecase_Book" where
  "counting_book_usecase =
     \<lparr>uc_Create = (\<lambda>ctx req n. ((Some example_book, None), Suc n)),
      uc_List = (\<lambda>ctx f n. (([example_book], None), Suc n)),
      uc_Read = (\<lambda>ctx i n.
         (if i = 1 then (Some example_book, None)
          else if i = 2 then (None, Some (DBError ''connection refused''))
          else (None, Some (Wrap ''book'' ErrNoRows)), Suc n)),
      uc_Update = (\<lambda>ctx req n. ((Some example_book, None), Suc n)),
      uc_Delete = (\<lambda>ctx i n. (None, Suc n)),
      uc_Search = (\<lambda>ctx f n. (([example_book], None), Suc n))\<rparr>"

definition counting_author_usecase :: "nat usecase_Author" where
  "counting_author_usecase =
     \<lparr>auc_Create = (\<lambda>ctx req n. ((None, None), Suc n)),
      auc_List = (\<lambda>ctx f n. (([], 0, None), Suc n)),
      auc_Read = (\<lambda>ctx i n. ((None, None), Suc n)),
      auc_Update = (\<lambda>ctx req n. ((None, None), Suc n)),
      auc_Delete = (\<lambda>ctx i n. (None, Suc n))\<rparr>"

text \<open>
  A path parameter parser that reads the ID off the length of the URL and fails on an
  empty one; JSON decoders that accept only an empty body and then give a request with
  the given title or first name; validators that require a title or a first name.
\<close>

definition example_param :: "http_Request \<Rightarrow> string \<Rightarrow> uint64 \<times> error option" where
  "example_param r name =
     (if r_URL r = [] then (0, Some (New ''invalid syntax''))
      else (of_nat (length (r_URL r)), None))"

definition example_book_decode :: "string \<Rightarrow> string \<Rightarrow> error + book_CreateRequest" where
  "example_book_decode title body =
     (if body = [] then
        Inr \<lparr>cr_Title = title, cr_PublishedDate = ''2020'', cr_ImageURL = [],
             cr_Description = ''D''\<rparr>
      else Inl (New ''unexpected end of JSON input''))"

definition example_author_decode :: "string \<Rightarrow> string \<Rightarrow> error + author_CreateRequest" where
  "example_author_decode name body =
     (if body = [] then
        Inr \<lparr>acr_FirstName = name, acr_MiddleName = [], acr_LastName = ''Lee'', acr_Books = []\<rparr>
      else Inl (New ''unexpected end of JSON input''))"

definition example_book_validate :: "unit \<Rightarrow> book_CreateRequest \<Rightarrow> string list option" where
  "example_book_validate v req = (if cr_Title req = [] then Some [''Title is required''] else None)"

definition example_author_validate :: "unit \<Rightarrow> author_CreateRequest \<Rightarrow> string list option" where
  "example_author_validate v req =
     (if acr_FirstName req = [] then Some [''FirstName is required''] else None)"

definition url_request :: "string \<Rightarrow> string \<Rightarrow> http_Request" where
  "url_request url body = \<lparr>r_Context = RequestContext 0, r_Body = body, r_URL = url\<rparr>"

section \<open>Properties of the store\<close>

lemma has_prefix_iff: "has_prefix s p \<longleftrightarrow> (\<exists>post. s = p @ post)"
  by (induction s p rule: has_prefix.induct) auto

lemma contains_iff: "contains s sub \<longleftrightarrow> (\<exists>pre post. s = pre @ sub @ post)"
proof (induction s)
  case Nil
  then show ?case by simp
next
  case (Cons c s)
  show ?case
  proof
    assume "contains (c # s) sub"
    then consider "has_prefix (c # s) sub" | "contains s sub" by auto
    then show "\<exists>pre post. c # s = pre @ sub @ post"
    proof cases
      case 1
      then obtain post where "c # s = sub @ post" by (auto simp: has_prefix_iff)
      then have "c # s = [] @ sub @ post" by simp
      then show ?thesis by blast
    next
      case 2
      then obtain pre post where "s = pre @ sub @ post" using Cons.IH by blast
      then have "c # s = (c # pre) @ sub @ post" by simp
      then show ?thesis by blast
    qed
  next
    assume "\<exists>pre post. c # s = pre @ sub @ post"
    then obtain pre post where eq: "c # s = pre @ sub @ post" by blast
    show "contains (c # s) sub"
    proof (cases pre)
      case Nil
      with eq have "has_prefix (c # s) sub" by (auto simp: has_prefix_iff)
      then show ?thesis by simp
    next
      case (Cons d pre')
      with eq have "s = pre' @ sub @ post" by simp
      then have "contains s sub" using Cons.IH by blast
      then show ?thesis by simp
    qed
  qed
qed

lemma set_insert_row: "set (insert_row os a bs) = insert a (set bs)"
  by (induction bs) auto

lemma length_insert_row: "length (insert_row os a bs) = Suc (length bs)"
  by (induction bs) auto

lemma set_order_rows: "set (order_rows os rows) = set rows"
  by (induction rows) (auto simp: order_rows_def set_insert_row)

lemma length_order_rows: "length (order_rows os rows) = length rows"
  by (induction rows) (auto simp: order_rows_def length_insert_row)

lemma paginate_subset: "paginate lim off rows = Inr rs \<Longrightarrow> set rs \<subseteq> set rows"
  by (auto simp: paginate_def Let_def split: if_splits dest: in_set_takeD in_set_dropD)

lemma selected_iff:
  "a \<in> set (selected db q) \<longleftrightarrow> a \<in> set (author_table db) \<and> (\<forall>p \<in> set (predicates q). holds p a)"
  by (auto simp: selected_def list_all_iff)

lemma Query_All_rows:
  assumes "Query_All db q = Inr ns" and "n \<in> set ns"
  shows "a_row n \<in> set (selected db q)"
proof -
  from assms(1) obtain rows where p: "paginate (ctx_Limit q) (ctx_Offset q) (order_rows (q_order q) (selected db q)) = Inr rows"
    and ns: "ns = map (scan db q) rows"
    by (auto simp: Query_All_def split: sum.splits)
  from assms(2) ns obtain a where "a \<in> set rows" and "n = scan db q a" by auto
  moreover from p have "set rows \<subseteq> set (selected db q)"
    using paginate_subset set_order_rows by fastforce
  ultimately show ?thesis by (auto simp: scan_def)
qed

lemma soft_deleted_iff:
  "soft_deleted db i \<longleftrightarrow>
     i \<in> a_ID ` set (author_table db)
     \<and> (\<forall>a \<in> set (author_table db). a_ID a = i \<longrightarrow> a_DeletedAt a \<noteq> None)"
  by (auto simp: soft_deleted_def list_ex_iff list_all_iff)

lemma mutate_ID: "a_ID (mutate u a) = a_ID a"
  by (simp add: mutate_def)

lemma mutate_deleted: "a_DeletedAt a \<noteq> None \<Longrightarrow> a_DeletedAt (mutate u a) \<noteq> None"
  by (simp add: mutate_def split: option.splits)

lemma UpdateOne_Save_table:
  "author_table (snd (UpdateOne_Save u db)) =
     map (\<lambda>a. if a_ID a = uo_ID u then mutate u a else a) (author_table db)"
proof (cases "filter (\<lambda>a. a_ID a = uo_ID u) (author_table db)")
  case Nil
  then have "\<forall>a \<in> set (author_table db). a_ID a \<noteq> uo_ID u"
    by (simp add: filter_empty_conv)
  then have "map (\<lambda>a. if a_ID a = uo_ID u then mutate u a else a) (author_table db) = author_table db"
    by (simp add: map_idI)
  with Nil show ?thesis by (simp add: UpdateOne_Save_def)
next
  case (Cons a as)
  then show ?thesis by (simp add: UpdateOne_Save_def)
qed

lemma map_ID_mutate:
  "map a_ID (map (\<lambda>a. if a_ID a = j then mutate u a else a) xs) = map a_ID xs"
  by (induction xs) (simp_all add: mutate_ID)

lemma UpdateOne_Save_soft_deleted:
  assumes "soft_deleted db i"
  shows "soft_deleted (snd (UpdateOne_Save u db)) i"
proof -
  let ?g = "\<lambda>a. if a_ID a = uo_ID u then mutate u a else a"
  have "set (map a_ID (map ?g (author_table db))) = set (map a_ID (author_table db))"
    by (simp only: map_ID_mutate)
  then have "a_ID ` set (map ?g (author_table db)) = a_ID ` set (author_table db)"
    by (simp only: set_map)
  moreover have "\<forall>b \<in> set (map ?g (author_table db)). a_ID b = i \<longrightarrow> a_DeletedAt b \<noteq> None"
  proof
    fix b assume "b \<in> set (map ?g (author_table db))"
    then obtain a where a: "a \<in> set (author_table db)" and b: "b = ?g a" by auto
    show "a_ID b = i \<longrightarrow> a_DeletedAt b \<noteq> None"
    proof
      assume "a_ID b = i"
      with b have "a_ID a = i" by (simp add: mutate_ID split: if_splits)
      with a assms have d: "a_DeletedAt a \<noteq> None" by (simp add: soft_deleted_iff)
      show "a_DeletedAt b \<noteq> None"
        using b d mutate_deleted [OF d, of u] by (simp split: if_splits)
    qed
  qed
  ultimately show ?thesis
    using assms unfolding soft_deleted_iff UpdateOne_Save_table by blast
qed

lemma BookCreate_Save_table: "author_table (snd (BookCreate_Save c t db)) = author_table db"
  by (simp add: BookCreate_Save_def Let_def)

lemma CreateBulk_Save_table: "author_table (snd (CreateBulk_Save cs t db)) = author_table db"
proof (induction cs arbitrary: db)
  case Nil
  then show ?case by simp
next
  case (Cons c cs)
  show ?case
  proof (cases "BookCreate_Save c t db")
    case (Pair r db1)
    then have t1: "author_table db1 = author_table db"
      using BookCreate_Save_table [of c t db] by simp
    show ?thesis
    proof (cases r)
      case (Inl err)
      with Pair t1 show ?thesis by simp
    next
      case (Inr node)
      with Pair t1 Cons.IH [of db1] show ?thesis
        by (cases "CreateBulk_Save cs t db1") (auto split: sum.splits)
    qed
  qed
qed

lemma AuthorCreate_Save_table:
  "author_table (snd (AuthorCreate_Save c t db)) =
     (if author_seq db \<in> a_ID ` set (author_table db) then author_table db
      else author_table db @
        [\<lparr>a_ID = author_seq db, a_FirstName = ac_FirstName c,
          a_MiddleName = (case ac_MiddleName c of None \<Rightarrow> [] | Some m \<Rightarrow> m),
          a_LastName = ac_LastName c, a_CreatedAt = t, a_UpdatedAt = t, a_DeletedAt = None\<rparr>])"
  by (simp add: AuthorCreate_Save_def Let_def)

lemma AuthorCreate_Save_soft_deleted:
  assumes "soft_deleted db i"
  shows "soft_deleted (snd (AuthorCreate_Save c t db)) i"
proof (cases "author_seq db \<in> a_ID ` set (author_table db)")
  case True
  then have "author_table (snd (AuthorCreate_Save c t db)) = author_table db"
    by (simp only: AuthorCreate_Save_table if_True)
  with assms show ?thesis by (simp only: soft_deleted_def)
next
  case False
  from assms have "i \<in> a_ID ` set (author_table db)" by (simp only: soft_deleted_iff)
  with False have ne: "author_seq db \<noteq> i" by blast
  from False obtain row where tbl: "author_table (snd (AuthorCreate_Save c t db)) = author_table db @ [row]"
    and row: "a_ID row = author_seq db"
    by (simp add: AuthorCreate_Save_table)
  from assms ne row show ?thesis
    unfolding soft_deleted_iff tbl by auto
qed

lemma Create_snd:
  "snd (author_repository_Create p t ctx (Some req) db) =
     (case CreateBulk_Save (map (\<lambda>b. \<lparr>bc_Title = ab_Title b, bc_Description = ab_Description b,
                                 bc_PublishedDate = p (ab_PublishedDate b)\<rparr>) (acr_Books req)) t db of
        (Inl err, db1) \<Rightarrow> db1
      | (Inr books, db1) \<Rightarrow>
          snd (AuthorCreate_Save \<lparr>ac_FirstName = acr_FirstName req,
                 ac_MiddleName = Some (acr_MiddleName req), ac_LastName = acr_LastName req,
                 ac_Books = map b_ID books\<rparr> t db1))"
  unfolding author_repository_Create_def Let_def
  by (simp split: prod.splits sum.splits)

lemma Create_None_snd: "snd (author_repository_Create p t ctx None db) = db"
  by (simp add: author_repository_Create_def)

lemma CreateBulk_soft_deleted:
  assumes "soft_deleted db i"
  shows "soft_deleted (snd (CreateBulk_Save cs t db)) i"
  using assms CreateBulk_Save_table [of cs t db] by (simp only: soft_deleted_def)

lemma Create_Some_soft_deleted:
  assumes "soft_deleted db i"
  shows "soft_deleted (snd (author_repository_Create p t ctx (Some req) db)) i"
proof -
  let ?bulk = "map (\<lambda>b. \<lparr>bc_Title = ab_Title b, bc_Description = ab_Description b,
                          bc_PublishedDate = p (ab_PublishedDate b)\<rparr>) (acr_Books req)"
  obtain r1 db1 where b: "CreateBulk_Save ?bulk t db = (r1, db1)"
    by (cases "CreateBulk_Save ?bulk t db")
  have sd1: "soft_deleted db1 i"
    using CreateBulk_soft_deleted [OF assms, of ?bulk t] unfolding b by simp
  show ?thesis
  proof (cases r1)
    case (Inl err)
    show ?thesis unfolding Create_snd b Inl using sd1 by simp
  next
    case (Inr books)
    show ?thesis unfolding Create_snd b Inr
      using AuthorCreate_Save_soft_deleted [OF sd1] by simp
  qed
qed

lemma Create_soft_deleted:
  assumes "soft_deleted db i"
  shows "soft_deleted (snd (author_repository_Create p t ctx request db)) i"
proof (cases request)
  case None
  show ?thesis unfolding None Create_None_snd by (rule assms)
next
  case (Some req)
  show ?thesis unfolding Some using assms by (rule Create_Some_soft_deleted)
qed

lemma Update_snd:
  "snd (author_repository_Update ctx a db) =
     snd (UpdateOne_Save (SetLastName (aur_LastName a) (SetMiddleName (aur_MiddleName a)
            (SetFirstName (aur_FirstName a) (UpdateOneID (aur_ID a))))) db)"
proof -
  let ?u = "SetLastName (aur_LastName a) (SetMiddleName (aur_MiddleName a)
              (SetFirstName (aur_FirstName a) (UpdateOneID (aur_ID a))))"
  obtain r db1 where "UpdateOne_Save ?u db = (r, db1)" by (cases "UpdateOne_Save ?u db")
  then show ?thesis by (cases r) (simp_all add: author_repository_Update_def)
qed

lemma Delete_snd:
  "snd (author_repository_Delete t ctx j db) = snd (UpdateOne_Save (SetDeletedAt t (UpdateOneID j)) db)"
proof -
  let ?u = "SetDeletedAt t (UpdateOneID j)"
  obtain r db1 where "UpdateOne_Save ?u db = (r, db1)" by (cases "UpdateOne_Save ?u db")
  then show ?thesis by (cases r) (simp_all add: author_repository_Delete_def)
qed

lemma call_soft_deleted:
  assumes "soft_deleted db i"
  shows "soft_deleted (call p c db) i"
proof (cases c)
  case (Create request t)
  have "soft_deleted (snd (author_repository_Create p t Background request db)) i"
    using assms by (rule Create_soft_deleted)
  then show ?thesis unfolding Create call.simps .
next
  case (Update a)
  have "soft_deleted (snd (author_repository_Update Background a db)) i"
    unfolding Update_snd using assms by (rule UpdateOne_Save_soft_deleted)
  then show ?thesis unfolding Update call.simps .
next
  case (Delete j t)
  have "soft_deleted (snd (author_repository_Delete t Background j db)) i"
    unfolding Delete_snd using assms by (rule UpdateOne_Save_soft_deleted)
  then show ?thesis unfolding Delete call.simps .
qed

lemma calls_soft_deleted: "soft_deleted db i \<Longrightarrow> soft_deleted (calls p cs db) i"
  unfolding calls_def
proof (induction cs arbitrary: db)
  case Nil
  then show ?case by simp
next
  case (Cons c cs)
  from Cons.prems have "soft_deleted (call p c db) i" by (rule call_soft_deleted)
  then have "soft_deleted (fold (call p) cs (call p c db)) i" by (rule Cons.IH)
  then show ?case by simp
qed

lemma Delete_result:
  "author_repository_Delete now ctx authorID db =
     (if authorID \<in> a_ID ` set (author_table db) then None else Some NotFoundError,
      db\<lparr>author_table :=
           map (\<lambda>a. if a_ID a = authorID then a\<lparr>a_DeletedAt := Some now\<rparr> else a) (author_table db)\<rparr>)"
proof (cases "filter (\<lambda>a. a_ID a = authorID) (author_table db)")
  case Nil
  then have no: "\<forall>a \<in> set (author_table db). a_ID a \<noteq> authorID"
    by (simp add: filter_empty_conv)
  then have "map (\<lambda>a. if a_ID a = authorID then a\<lparr>a_DeletedAt := Some now\<rparr> else a) (author_table db)
      = author_table db"
    by (simp add: map_idI)
  moreover from no have "authorID \<notin> a_ID ` set (author_table db)" by auto
  ultimately show ?thesis using Nil
    by (simp add: author_repository_Delete_def UpdateOne_Save_def SetDeletedAt_def UpdateOneID_def)
next
  case (Cons a as)
  then have "a \<in> set (filter (\<lambda>a. a_ID a = authorID) (author_table db))" by simp
  then have "authorID \<in> a_ID ` set (author_table db)" by auto
  then show ?thesis using Cons
    by (simp add: author_repository_Delete_def UpdateOne_Save_def SetDeletedAt_def UpdateOneID_def
        mutate_def)
qed

lemma Query_All_holds:
  assumes "Query_All db q = Inr ns" and "n \<in> set ns" and "p \<in> set (predicates q)"
  shows "holds p (a_row n)"
  using Query_All_rows [OF assms(1,2)] assms(3) by (simp add: selected_iff)

lemma Query_First_holds:
  assumes "Query_First db q = Inr n" and "p \<in> set (predicates q)"
  shows "holds p (a_row n)"
proof -
  from assms(1) obtain ns where "Query_All db (Limit 1 q) = Inr (n # ns)"
    by (auto simp: Query_First_def split: sum.splits list.splits)
  moreover have "p \<in> set (predicates (Limit 1 q))" using assms(2) by (simp add: Limit_def)
  ultimately show ?thesis using Query_All_holds by fastforce
qed

lemma predicates_Read_query: "predicates (Read_query i) = [IDEQ i, DeletedAtIsNil]"
  by (simp add: Read_query_def Where_def WithBooks_def Author_Query_def)

lemma DeletedAtIsNil_in_List_query: "DeletedAtIsNil \<in> set (predicates (List_authors_query f))"
  by (simp add: List_authors_query_def Order_def Offset_def Limit_def Where_def)

lemma Read_Some:
  assumes "fst (author_repository_Read ctx i db) = Some a"
  shows "s_DeletedAt a = None \<and> s_ID a = i
         \<and> (\<exists>row \<in> set (author_table db). a_ID row = i \<and> a_DeletedAt row = None)"
proof -
  from assms obtain found where f: "Query_First db (Read_query i) = Inr found"
    and a: "a = to_author_Schema (a_row found) (map to_book_Schema (Edges_Books found))"
    by (auto simp: author_repository_Read_def split: sum.splits)
  have "holds DeletedAtIsNil (a_row found)"
    by (rule Query_First_holds [OF f]) (simp add: predicates_Read_query)
  moreover have "holds (IDEQ i) (a_row found)"
    by (rule Query_First_holds [OF f]) (simp add: predicates_Read_query)
  moreover from f obtain ns where "Query_All db (Limit 1 (Read_query i)) = Inr (found # ns)"
    by (auto simp: Query_First_def split: sum.splits list.splits)
  then have "a_row found \<in> set (author_table db)"
    using Query_All_rows [of db "Limit 1 (Read_query i)" "found # ns" found]
    by (simp add: selected_iff)
  ultimately show ?thesis using a by (auto simp: to_author_Schema_def)
qed

lemma List_member:
  assumes "a \<in> set (fst (author_repository_List ctx f db))"
  shows "s_DeletedAt a = None
         \<and> (\<exists>row \<in> set (author_table db). a_ID row = s_ID a \<and> a_DeletedAt row = None)"
proof -
  from assms obtain ns where q: "Query_All db (List_authors_query f) = Inr ns"
    and a: "a \<in> set (map (\<lambda>a. to_author_Schema (a_row a) (map to_book_Schema (Edges_Books a))) ns)"
    by (auto simp: author_repository_List_def split: sum.splits)
  from a obtain n where n: "n \<in> set ns"
    and an: "a = to_author_Schema (a_row n) (map to_book_Schema (Edges_Books n))" by auto
  have "holds DeletedAtIsNil (a_row n)"
    using Query_All_holds [OF q n DeletedAtIsNil_in_List_query] .
  moreover have "a_row n \<in> set (author_table db)"
    using Query_All_rows [OF q n] by (simp add: selected_iff)
  ultimately show ?thesis using an by (auto simp: to_author_Schema_def)
qed

lemma Read_result_cases:
  "(\<exists>a. author_repository_Read ctx i db = (Some a, None))
   \<or> (\<exists>err. author_repository_Read ctx i db = (None, Some err))"
  by (auto simp: author_repository_Read_def split: sum.splits)

lemma soft_deleted_hidden:
  assumes "soft_deleted db i"
  shows "fst (author_repository_Read ctx i db) = None"
    and "snd (author_repository_Read ctx i db) \<noteq> None"
    and "i \<notin> s_ID ` set (fst (author_repository_List ctx f db))"
proof -
  show r: "fst (author_repository_Read ctx i db) = None"
  proof (cases "fst (author_repository_Read ctx i db)")
    case None
    then show ?thesis .
  next
    case (Some a)
    from Read_Some [OF Some] assms show ?thesis by (auto simp: soft_deleted_iff)
  qed
  from r Read_result_cases [of ctx i db] show "snd (author_repository_Read ctx i db) \<noteq> None"
    by auto
  show "i \<notin> s_ID ` set (fst (author_repository_List ctx f db))"
  proof
    assume "i \<in> s_ID ` set (fst (author_repository_List ctx f db))"
    then obtain a where "a \<in> set (fst (author_repository_List ctx f db))" and "s_ID a = i" by auto
    with List_member [of a ctx f db] assms show False by (auto simp: soft_deleted_iff)
  qed
qed

lemma map_ID_mark:
  "map a_ID (map (\<lambda>a. if a_ID a = i then a\<lparr>a_DeletedAt := Some now\<rparr> else a) xs) = map a_ID xs"
  by (induction xs) simp_all

lemma Delete_soft_deleted:
  assumes "fst (author_repository_Delete now ctx i db) = None"
  shows "soft_deleted (snd (author_repository_Delete now ctx i db)) i"
proof -
  let ?g = "\<lambda>a. if a_ID a = i then a\<lparr>a_DeletedAt := Some now\<rparr> else a"
  have tbl: "author_table (snd (author_repository_Delete now ctx i db)) = map ?g (author_table db)"
    by (simp add: Delete_result)
  have "map a_ID (map ?g (author_table db)) = map a_ID (author_table db)"
    by (rule map_ID_mark)
  then have "set (map a_ID (map ?g (author_table db))) = set (map a_ID (author_table db))"
    by (simp only:)
  then have ids: "a_ID ` set (map ?g (author_table db)) = a_ID ` set (author_table db)"
    by (simp only: set_map)
  from assms have "i \<in> a_ID ` set (author_table db)"
    by (simp add: Delete_result split: if_splits)
  with ids have "i \<in> a_ID ` set (map ?g (author_table db))" by simp
  moreover have "\<forall>b \<in> set (map ?g (author_table db)). a_ID b = i \<longrightarrow> a_DeletedAt b \<noteq> None"
  proof
    fix b assume "b \<in> set (map ?g (author_table db))"
    then have "b \<in> ?g ` set (author_table db)" by (simp only: set_map)
    then obtain a where "b = ?g a" by (rule imageE)
    then show "a_ID b = i \<longrightarrow> a_DeletedAt b \<noteq> None" by (cases "a_ID a = i") simp_all
  qed
  ultimately show ?thesis unfolding soft_deleted_iff tbl by blast
qed

lemma authorOrder_loop_concat:
  "authorOrder_loop acc sorts = acc @ concat (map sort_entry_order sorts)"
proof (induction sorts arbitrary: acc)
  case Nil
  then show ?case by simp
next
  case (Cons e sorts)
  obtain col ord where e: "e = (col, ord)" by (cases e)
  show ?case unfolding e
    by (simp add: Cons.IH sort_entry_order_def FieldFirstName_def FieldLastName_def
        FieldCreatedAt_def FieldUpdatedAt_def)
qed

lemma authorOrder_concat: "authorOrder sorts = concat (map sort_entry_order sorts)"
  by (simp add: authorOrder_def authorOrder_loop_concat)

lemma predicateUser_eq:
  "predicateUser f =
     (if f_FirstName f = [] then [] else [FirstNameContainsFold (f_FirstName f)])
     @ (if f_MiddleName f = [] then [] else [MiddleNameContainsFold (f_MiddleName f)])
     @ (if f_LastName f = [] then [] else [LastNameContainsFold (f_LastName f)])"
  by (simp add: predicateUser_def)

lemma List_authors_query_eq:
  "List_authors_query f =
     \<lparr>withBooks = True, predicates = predicateUser f @ [DeletedAtIsNil],
      ctx_Limit = Some (f_Limit f), ctx_Offset = Some (f_Offset f),
      q_order = authorOrder (f_Sort f)\<rparr>"
  by (simp add: List_authors_query_def Order_def Offset_def Limit_def Where_def WithBooks_def
      Author_Query_def)

lemma holds_predicateUser:
  "list_all (\<lambda>p. holds p a) (predicateUser f @ [DeletedAtIsNil]) = wanted f a"
  by (simp add: predicateUser_eq wanted_def)

lemma selected_List_authors_query:
  "selected db (List_authors_query f) = filter (wanted f) (author_table db)"
proof -
  have "(\<lambda>a. list_all (\<lambda>p. holds p a) (predicates (List_authors_query f))) = wanted f"
    by (rule ext) (simp only: List_authors_query_eq AuthorQuery.simps holds_predicateUser)
  then show ?thesis by (simp only: selected_def)
qed

lemma Count_List_total_query:
  "Query_Count db List_total_query =
     Inr (int (length (filter (\<lambda>a. a_DeletedAt a = None) (author_table db))))"
  by (simp add: Query_Count_def List_total_query_def Where_def Author_Query_def paginate_def
      selected_def)

lemma ContainsFold_iff:
  "ContainsFold v sub \<longleftrightarrow> (\<exists>pre post. map to_lower v = pre @ map to_lower sub @ post)"
  by (simp add: ContainsFold_def contains_iff)

lemma List_pipeline:
  assumes "0 < f_Limit f" and "0 \<le> f_Offset f"
  shows "author_repository_List ctx f db =
     (map (\<lambda>a. to_author_Schema a (map to_book_Schema (load_Books db a)))
        (take (nat (f_Limit f)) (drop (nat (f_Offset f))
           (order_rows (concat (map sort_entry_order (f_Sort f)))
              (filter (wanted f) (author_table db))))),
      int (length (filter (\<lambda>a. a_DeletedAt a = None) (author_table db))), None)"
proof -
  have all: "Query_All db (List_authors_query f) =
      Inr (map (scan db (List_authors_query f))
        (take (nat (f_Limit f)) (drop (nat (f_Offset f))
           (order_rows (concat (map sort_entry_order (f_Sort f)))
              (filter (wanted f) (author_table db))))))"
    unfolding Query_All_def selected_List_authors_query
    using assms by (simp add: List_authors_query_eq paginate_def Let_def authorOrder_concat)
  have sc: "scan db (List_authors_query f) a = \<lparr>a_row = a, Edges_Books = load_Books db a\<rparr>" for a
    by (simp add: scan_def List_authors_query_eq)
  show ?thesis
    unfolding author_repository_List_def Count_List_total_query all
    by (simp add: sc comp_def)
qed

lemma Update_result:
  "author_repository_Update ctx a db =
     (case filter (\<lambda>r. a_ID r = aur_ID a) (author_table db) of
        [] \<Rightarrow> ((None, Some NotFoundError), db)
      | r # rs \<Rightarrow>
          ((Some (to_author_Schema
                    (r\<lparr>a_FirstName := aur_FirstName a, a_MiddleName := aur_MiddleName a,
                       a_LastName := aur_LastName a\<rparr>) []), None),
           db\<lparr>author_table :=
                map (\<lambda>r. if a_ID r = aur_ID a
                          then r\<lparr>a_FirstName := aur_FirstName a, a_MiddleName := aur_MiddleName a,
                                 a_LastName := aur_LastName a\<rparr>
                          else r) (author_table db)\<rparr>))"
  by (simp add: author_repository_Update_def UpdateOne_Save_def SetLastName_def SetMiddleName_def
      SetFirstName_def UpdateOneID_def mutate_def split: list.splits)

lemma length_filter_mono:
  "(\<And>x. P x \<Longrightarrow> Q x) \<Longrightarrow> length (filter P xs) \<le> length (filter Q xs)"
  by (induction xs) auto

lemma selected_wanted_le:
  "length (filter (wanted f) (author_table db))
     \<le> length (filter (\<lambda>a. a_DeletedAt a = None) (author_table db))"
  by (rule length_filter_mono) (simp add: wanted_def)

lemma List_result_cases:
  "(\<exists>err. author_repository_List ctx f db = ([], 0, Some err))
   \<or> (\<exists>ns. Query_All db (List_authors_query f) = Inr ns
         \<and> author_repository_List ctx f db =
            (map (\<lambda>a. to_author_Schema (a_row a) (map to_book_Schema (Edges_Books a))) ns,
             int (length (filter (\<lambda>a. a_DeletedAt a = None) (author_table db))), None))"
  unfolding author_repository_List_def Count_List_total_query
  by (cases "Query_All db (List_authors_query f)") simp_all

lemma Query_All_length:
  assumes "Query_All db q = Inr ns"
  shows "length ns \<le> length (selected db q)"
proof -
  from assms obtain rows where p: "paginate (ctx_Limit q) (ctx_Offset q) (order_rows (q_order q) (selected db q)) = Inr rows"
    and ns: "ns = map (scan db q) rows"
    by (auto simp: Query_All_def split: sum.splits)
  from p have "length rows \<le> length (order_rows (q_order q) (selected db q))"
    by (auto simp: paginate_def Let_def split: if_splits)
  with ns show ?thesis by (simp add: length_order_rows)
qed

lemma book_Create_decode_fails:
  assumes "bdec (r_Body r) = Inl derr"
  shows "book_Handler_Create bdec bval bres h r st =
           (\<lparr>status = 400, payload = ErrorPayload None\<rparr>, st)"
  using assms by (simp add: book_Handler_Create_def respond_Error_def StatusBadRequest_def)

lemma book_Create_invalid:
  assumes "bdec (r_Body r) = Inr req" and "bval (validate h) req = Some errs"
  shows "book_Handler_Create bdec bval bres h r st =
           (\<lparr>status = 400, payload = ErrorsPayload errs\<rparr>, st)"
  using assms by (simp add: book_Handler_Create_def respond_Errors_def StatusBadRequest_def)

lemma book_Create_valid:
  assumes "bdec (r_Body r) = Inr req" and "bval (validate h) req = None"
  shows "snd (book_Handler_Create bdec bval bres h r st) =
           snd (uc_Create (useCase h) (r_Context r) req st)"
  using assms
  by (cases "uc_Create (useCase h) (r_Context r) req st")
     (auto simp: book_Handler_Create_def split: option.splits)

lemma author_Create_decode_fails:
  assumes "adec (r_Body r) = Inl derr"
  shows "author_Handler_Create adec aval ares h r st =
           (\<lparr>status = 400, payload = ErrorPayload (Some derr)\<rparr>, st)"
  using assms by (simp add: author_Handler_Create_def respond_Error_def StatusBadRequest_def)

lemma author_Create_invalid:
  assumes "adec (r_Body r) = Inr req" and "aval (validate h) req = Some errs"
  shows "author_Handler_Create adec aval ares h r st =
           (\<lparr>status = 400, payload = ErrorsPayload errs\<rparr>, st)"
  using assms by (simp add: author_Handler_Create_def respond_Errors_def StatusBadRequest_def)

lemma author_Create_valid:
  assumes "adec (r_Body r) = Inr req" and "aval (validate h) req = None"
  shows "snd (author_Handler_Create adec aval ares h r st) =
           snd (auc_Create (useCase h) (r_Context r) req st)"
  using assms
  by (cases "auc_Create (useCase h) (r_Context r) req st")
     (auto simp: author_Handler_Create_def split: option.splits)

lemma BookCreate_Save_author_seq: "author_seq (snd (BookCreate_Save c t db)) = author_seq db"
  by (simp add: BookCreate_Save_def Let_def)

lemma CreateBulk_Save_author_seq: "author_seq (snd (CreateBulk_Save cs t db)) = author_seq db"
proof (induction cs arbitrary: db)
  case Nil
  then show ?case by simp
next
  case (Cons c cs)
  show ?case
  proof (cases "BookCreate_Save c t db")
    case (Pair r db1)
    then have t1: "author_seq db1 = author_seq db"
      using BookCreate_Save_author_seq [of c t db] by simp
    show ?thesis
    proof (cases r)
      case (Inl err)
      with Pair t1 show ?thesis by simp
    next
      case (Inr node)
      with Pair t1 Cons.IH [of db1] show ?thesis
        by (cases "CreateBulk_Save cs t db1") (auto split: sum.splits)
    qed
  qed
qed

lemma AuthorCreate_Save_ID:
  "AuthorCreate_Save c t db = (Inr create, db') \<Longrightarrow> a_ID (a_row create) = author_seq db"
  by (auto simp: AuthorCreate_Save_def Let_def split: if_splits)

lemma Author_Get_row:
  assumes "Author_Get db i = Inr n"
  shows "a_ID (a_row n) = i" and "a_row n \<in> set (author_table db)"
proof -
  let ?q = "Limit 2 (Where [IDEQ i] Author_Query)"
  from assms have q: "Query_All db ?q = Inr [n]"
    by (auto simp: Author_Get_def split: sum.splits list.splits)
  have n: "n \<in> set [n]" by simp
  have "IDEQ i \<in> set (predicates ?q)" by (simp add: Limit_def Where_def Author_Query_def)
  from Query_All_holds [OF q n this] show "a_ID (a_row n) = i" by simp
  from Query_All_rows [OF q n] show "a_row n \<in> set (author_table db)"
    by (simp add: selected_iff)
qed

lemma Create_Some:
  assumes "fst (fst (author_repository_Create p t ctx request db)) = Some resp"
  obtains req books db1 create created where
    "request = Some req"
    "CreateBulk_Save (map (\<lambda>b. \<lparr>bc_Title = ab_Title b, bc_Description = ab_Description b,
                                 bc_PublishedDate = p (ab_PublishedDate b)\<rparr>) (acr_Books req)) t db
       = (Inr books, db1)"
    "AuthorCreate_Save \<lparr>ac_FirstName = acr_FirstName req,
                         ac_MiddleName = Some (acr_MiddleName req),
                         ac_LastName = acr_LastName req,
                         ac_Books = map b_ID books\<rparr> t db1
       = (Inr create, snd (author_repository_Create p t ctx request db))"
    "Author_Get (snd (author_repository_Create p t ctx request db)) (a_ID (a_row create))
       = Inr created"
    "resp = to_author_Schema (a_row created) (map to_book_Schema books)"
  using assms unfolding author_repository_Create_def Let_def
  by (auto split: option.splits sum.splits prod.splits)

text \<open>
  The paths that read after the write. The book use-case \<open>Create\<close>, after a repository
  \<open>Create\<close> that succeeds, calls the repository \<open>Read\<close> with the ID that \<open>Create\<close>
  returned and returns what that read returns (the book it found, or its error with no
  book). The book use-case \<open>Update\<close>, after a repository \<open>Update\<close> that succeeds, returns
  exactly what the repository \<open>Read\<close> of the request's ID returns. The author repository
  \<open>Create\<close>, when it succeeds, has fetched the author again by the ID the insert
  created, and the author fields of its response are those of the fetched row.
\<close>

lemma read_after_write_paths:
  "(repo_Create (bookRepo u) ctx book st = ((bookID, None), st') \<longrightarrow>
      BookUseCase_Create u ctx book st =
        (if snd (fst (repo_Read (bookRepo u) ctx bookID st')) = None
         then repo_Read (bookRepo u) ctx bookID st'
         else ((None, snd (fst (repo_Read (bookRepo u) ctx bookID st'))),
               snd (repo_Read (bookRepo u) ctx bookID st'))))
   \<and> (repo_Update (bookRepo u) ctx upd st = (None, st') \<longrightarrow>
      BookUseCase_Update u ctx upd st = repo_Read (bookRepo u) ctx (ur_ID upd) st')
   \<and> (fst (fst (author_repository_Create p t ctx request db)) = Some resp \<longrightarrow>
      (\<exists>created.
         Author_Get (snd (author_repository_Create p t ctx request db)) (author_seq db)
           = Inr created
         \<and> a_row created \<in> set (author_table (snd (author_repository_Create p t ctx request db)))
         \<and> s_ID resp = author_seq db
         \<and> resp = to_author_Schema (a_row created) (s_Books resp)))"
proof (intro conjI impI)
  assume c: "repo_Create (bookRepo u) ctx book st = ((bookID, None), st')"
  obtain found err st2 where r: "repo_Read (bookRepo u) ctx bookID st' = ((found, err), st2)"
    by (metis surj_pair)
  show "BookUseCase_Create u ctx book st =
        (if snd (fst (repo_Read (bookRepo u) ctx bookID st')) = None
         then repo_Read (bookRepo u) ctx bookID st'
         else ((None, snd (fst (repo_Read (bookRepo u) ctx bookID st'))),
               snd (repo_Read (bookRepo u) ctx bookID st')))"
    by (cases err) (simp_all add: BookUseCase_Create_def c r)
next
  assume "repo_Update (bookRepo u) ctx upd st = (None, st')"
  then show "BookUseCase_Update u ctx upd st = repo_Read (bookRepo u) ctx (ur_ID upd) st'"
    by (simp add: BookUseCase_Update_def)
next
  assume "fst (fst (author_repository_Create p t ctx request db)) = Some resp"
  then obtain req books db1 create created where
    "request = Some req" and
    bulk: "CreateBulk_Save (map (\<lambda>b. \<lparr>bc_Title = ab_Title b, bc_Description = ab_Description b,
                                 bc_PublishedDate = p (ab_PublishedDate b)\<rparr>) (acr_Books req)) t db
       = (Inr books, db1)"
    and ins: "AuthorCreate_Save \<lparr>ac_FirstName = acr_FirstName req,
                         ac_MiddleName = Some (acr_MiddleName req),
                         ac_LastName = acr_LastName req,
                         ac_Books = map b_ID books\<rparr> t db1
       = (Inr create, snd (author_repository_Create p t ctx request db))"
    and get: "Author_Get (snd (author_repository_Create p t ctx request db)) (a_ID (a_row create))
       = Inr created"
    and resp: "resp = to_author_Schema (a_row created) (map to_book_Schema books)"
    by (rule Create_Some)
  from bulk CreateBulk_Save_author_seq [of _ t db] have "author_seq db1 = author_seq db"
    by (metis snd_conv)
  with AuthorCreate_Save_ID [OF ins] have cid: "a_ID (a_row create) = author_seq db" by simp
  from Author_Get_row [OF get] cid
  have "a_ID (a_row created) = author_seq db"
    and "a_row created \<in> set (author_table (snd (author_repository_Create p t ctx request db)))"
    by simp_all
  with get cid resp
  show "\<exists>created.
         Author_Get (snd (author_repository_Create p t ctx request db)) (author_seq db)
           = Inr created
         \<and> a_row created \<in> set (author_table (snd (author_repository_Create p t ctx request db)))
         \<and> s_ID resp = author_seq db
         \<and> resp = to_author_Schema (a_row created) (s_Books resp)"
    by (intro exI [of _ created]) (simp add: to_author_Schema_def)
qed

section \<open>Theorems\<close>


text \<open>
  C2. Deleting an author is a soft delete. For every author ID, time and store,
  \<open>repository.Delete\<close> succeeds exactly when a row has that ID; it keeps every row of the
  author table in its place; a row with that ID gets \<open>deleted_at\<close> set to the current
  time, and no row differs from what it was in any column but \<open>deleted_at\<close>; a row with
  another ID, the book table, the join table and the sequences are unchanged.
\<close>

theorem Delete_is_soft:
  assumes "author_repository_Delete now ctx authorID db = (err, db')"
  shows "(err = None \<longleftrightarrow> authorID \<in> a_ID ` set (author_table db))
     \<and> length (author_table db') = length (author_table db)
     \<and> (\<forall>k < length (author_table db).
           (author_table db' ! k)\<lparr>a_DeletedAt := a_DeletedAt (author_table db ! k)\<rparr>
             = author_table db ! k
           \<and> (a_ID (author_table db ! k) = authorID
                \<longrightarrow> a_DeletedAt (author_table db' ! k) = Some now)
           \<and> (a_ID (author_table db ! k) \<noteq> authorID
                \<longrightarrow> author_table db' ! k = author_table db ! k))
     \<and> book_table db' = book_table db
     \<and> book_authors_table db' = book_authors_table db
     \<and> author_seq db' = author_seq db \<and> book_seq db' = book_seq db"
  using assms unfolding Delete_result by (auto split: if_splits)

theorem Delete_is_soft_witness:
  "author_table (snd (author_repository_Delete 99 Background 1 example_db)) =
     [\<lparr>a_ID = 1, a_FirstName = ''Ann'', a_MiddleName = [], a_LastName = ''Lee'',
       a_CreatedAt = 10, a_UpdatedAt = 10, a_DeletedAt = Some 99\<rparr>,
      \<lparr>a_ID = 2, a_FirstName = ''Bob'', a_MiddleName = ''J'', a_LastName = ''Ray'',
       a_CreatedAt = 20, a_UpdatedAt = 20, a_DeletedAt = None\<rparr>]
   \<and> fst (author_repository_Delete 99 Background 1 example_db) = None
   \<and> length (author_table (snd (author_repository_Delete 99 Background 1 example_db))) = 2"
proof -
  have run: "author_repository_Delete 99 Background 1 example_db =
      (fst (author_repository_Delete 99 Background 1 example_db),
       snd (author_repository_Delete 99 Background 1 example_db))" by simp
  have tbl: "author_table (snd (author_repository_Delete 99 Background 1 example_db)) =
     [\<lparr>a_ID = 1, a_FirstName = ''Ann'', a_MiddleName = [], a_LastName = ''Lee'',
       a_CreatedAt = 10, a_UpdatedAt = 10, a_DeletedAt = Some 99\<rparr>,
      \<lparr>a_ID = 2, a_FirstName = ''Bob'', a_MiddleName = ''J'', a_LastName = ''Ray'',
       a_CreatedAt = 20, a_UpdatedAt = 20, a_DeletedAt = None\<rparr>]"
    by (simp add: Delete_result example_db_def)
  from Delete_is_soft [OF run] tbl show ?thesis by (simp add: example_db_def)
qed

text \<open>
  C3. Soft-deleted authors are invisible to reads. For every store, an author that
  \<open>repository.Read\<close> returns, and every author in the list that \<open>repository.List\<close>
  returns, has a nil \<open>deleted_at\<close>. After a \<open>repository.Delete\<close> of an ID that succeeds,
  and any sequence of further \<open>Create\<close>, \<open>Update\<close> and \<open>Delete\<close> calls of the repository,
  \<open>Read\<close> of that ID returns no author and an error, and no author of a \<open>List\<close> result has
  that ID.
\<close>

theorem deleted_authors_invisible:
  "(fst (author_repository_Read ctx i db) = Some a \<longrightarrow> s_DeletedAt a = None)
   \<and> (b \<in> set (fst (author_repository_List ctx f db)) \<longrightarrow> s_DeletedAt b = None)
   \<and> (fst (author_repository_Delete now ctx i db) = None \<longrightarrow>
        fst (author_repository_Read ctx i
               (calls p cs (snd (author_repository_Delete now ctx i db)))) = None
        \<and> snd (author_repository_Read ctx i
               (calls p cs (snd (author_repository_Delete now ctx i db)))) \<noteq> None
        \<and> i \<notin> s_ID ` set (fst (author_repository_List ctx f
               (calls p cs (snd (author_repository_Delete now ctx i db))))))"
proof (intro conjI impI)
  assume "fst (author_repository_Read ctx i db) = Some a"
  then show "s_DeletedAt a = None" using Read_Some by blast
next
  assume "b \<in> set (fst (author_repository_List ctx f db))"
  then show "s_DeletedAt b = None" using List_member by blast
next
  assume "fst (author_repository_Delete now ctx i db) = None"
  then have sd: "soft_deleted (calls p cs (snd (author_repository_Delete now ctx i db))) i"
    by (intro calls_soft_deleted Delete_soft_deleted)
  from soft_deleted_hidden [OF sd]
  show "fst (author_repository_Read ctx i
               (calls p cs (snd (author_repository_Delete now ctx i db)))) = None"
    and "snd (author_repository_Read ctx i
               (calls p cs (snd (author_repository_Delete now ctx i db)))) \<noteq> None"
    and "i \<notin> s_ID ` set (fst (author_repository_List ctx f
               (calls p cs (snd (author_repository_Delete now ctx i db)))))"
    by blast+
qed

theorem deleted_authors_invisible_witness:
  "s_DeletedAt (the (fst (author_repository_Read Background 2 example_db))) = None
   \<and> fst (author_repository_Read Background 1
          (calls (\<lambda>s. 0) [Update example_update]
             (snd (author_repository_Delete 99 Background 1 example_db)))) = None
   \<and> 1 \<notin> s_ID ` set (fst (author_repository_List Background example_filter
          (calls (\<lambda>s. 0) [Update example_update]
             (snd (author_repository_Delete 99 Background 1 example_db)))))"
proof -
  have r: "fst (author_repository_Read Background 2 example_db) =
             Some (the (fst (author_repository_Read Background 2 example_db)))"
    by code_simp
  have d: "fst (author_repository_Delete 99 Background 1 example_db) = None"
    by code_simp
  from deleted_authors_invisible
         [where ctx = Background and i = 2 and db = example_db
            and a = "the (fst (author_repository_Read Background 2 example_db))"] r
  have "s_DeletedAt (the (fst (author_repository_Read Background 2 example_db))) = None"
    by blast
  moreover from deleted_authors_invisible
         [where ctx = Background and i = 1 and db = example_db and now = 99
            and f = example_filter and p = "\<lambda>s. 0" and cs = "[Update example_update]"] d
  have "fst (author_repository_Read Background 1
          (calls (\<lambda>s. 0) [Update example_update]
             (snd (author_repository_Delete 99 Background 1 example_db)))) = None
   \<and> 1 \<notin> s_ID ` set (fst (author_repository_List Background example_filter
          (calls (\<lambda>s. 0) [Update example_update]
             (snd (author_repository_Delete 99 Background 1 example_db)))))"
    by blast
  ultimately show ?thesis by blast
qed

text \<open>
  C4. For every \<open>Create\<close> request, of a book or of an author: when decoding the body
  fails, or when validation reports errors, the handler responds with status 400, the
  state behind the use-case is untouched, and the outcome is the same whatever the
  use-case is, so the use-case is not called; when decoding and validation both succeed,
  the state is the one that the use-case \<open>Create\<close>, called on the decoded request, left.
\<close>

theorem Create_rejects_before_use_case:
  "(bdec (r_Body r) = Inl derr
      \<or> (\<exists>req errs. bdec (r_Body r) = Inr req \<and> bval (validate bh) req = Some errs) \<longrightarrow>
      status (fst (book_Handler_Create bdec bval bres bh r st)) = 400
      \<and> snd (book_Handler_Create bdec bval bres bh r st) = st
      \<and> book_Handler_Create bdec bval bres (bh\<lparr>useCase := bu\<rparr>) r st
          = book_Handler_Create bdec bval bres bh r st)
   \<and> (bdec (r_Body r) = Inr breq \<and> bval (validate bh) breq = None \<longrightarrow>
      snd (book_Handler_Create bdec bval bres bh r st)
        = snd (uc_Create (useCase bh) (r_Context r) breq st))
   \<and> (adec (r_Body r) = Inl derr
      \<or> (\<exists>req errs. adec (r_Body r) = Inr req \<and> aval (validate ah) req = Some errs) \<longrightarrow>
      status (fst (author_Handler_Create adec aval ares ah r st)) = 400
      \<and> snd (author_Handler_Create adec aval ares ah r st) = st
      \<and> author_Handler_Create adec aval ares (ah\<lparr>useCase := au\<rparr>) r st
          = author_Handler_Create adec aval ares ah r st)
   \<and> (adec (r_Body r) = Inr areq \<and> aval (validate ah) areq = None \<longrightarrow>
      snd (author_Handler_Create adec aval ares ah r st)
        = snd (auc_Create (useCase ah) (r_Context r) areq st))"
proof (intro conjI impI)
  assume "bdec (r_Body r) = Inl derr
      \<or> (\<exists>req errs. bdec (r_Body r) = Inr req \<and> bval (validate bh) req = Some errs)"
  then consider (dec) "bdec (r_Body r) = Inl derr"
    | (val) req errs where "bdec (r_Body r) = Inr req" and "bval (validate bh) req = Some errs"
    by blast
  then have "\<exists>p. \<forall>u. book_Handler_Create bdec bval bres (bh\<lparr>useCase := u\<rparr>) r st
               = (\<lparr>status = 400, payload = p\<rparr>, st)"
  proof cases
    case dec
    show ?thesis
      by (intro exI allI) (rule book_Create_decode_fails [where bdec = bdec and r = r, OF dec])
  next
    case val
    have "book_Handler_Create bdec bval bres (bh\<lparr>useCase := u\<rparr>) r st
               = (\<lparr>status = 400, payload = ErrorsPayload errs\<rparr>, st)" for u
      by (rule book_Create_invalid [where bdec = bdec and r = r and req = req and bval = bval and errs = errs]) (simp_all add: val)
    then show ?thesis by (intro exI allI)
  qed
  then obtain p where all: "\<And>u. book_Handler_Create bdec bval bres (bh\<lparr>useCase := u\<rparr>) r st
               = (\<lparr>status = 400, payload = p\<rparr>, st)" by blast
  from all [of "useCase bh"] have this_one: "book_Handler_Create bdec bval bres bh r st
               = (\<lparr>status = 400, payload = p\<rparr>, st)" by simp
  show "status (fst (book_Handler_Create bdec bval bres bh r st)) = 400"
    by (simp add: this_one)
  show "snd (book_Handler_Create bdec bval bres bh r st) = st"
    by (simp add: this_one)
  show "book_Handler_Create bdec bval bres (bh\<lparr>useCase := bu\<rparr>) r st
          = book_Handler_Create bdec bval bres bh r st"
    unfolding this_one by (rule all)
next
  assume ok: "bdec (r_Body r) = Inr breq \<and> bval (validate bh) breq = None"
  show "snd (book_Handler_Create bdec bval bres bh r st)
        = snd (uc_Create (useCase bh) (r_Context r) breq st)"
    by (rule book_Create_valid [where bdec = bdec and r = r and req = breq and bval = bval]) (simp_all add: ok)
next
  assume "adec (r_Body r) = Inl derr
      \<or> (\<exists>req errs. adec (r_Body r) = Inr req \<and> aval (validate ah) req = Some errs)"
  then consider (dec) "adec (r_Body r) = Inl derr"
    | (val) req errs where "adec (r_Body r) = Inr req" and "aval (validate ah) req = Some errs"
    by blast
  then have "\<exists>p. \<forall>u. author_Handler_Create adec aval ares (ah\<lparr>useCase := u\<rparr>) r st
               = (\<lparr>status = 400, payload = p\<rparr>, st)"
  proof cases
    case dec
    show ?thesis
      by (intro exI allI) (rule author_Create_decode_fails [where adec = adec and r = r, OF dec])
  next
    case val
    have "author_Handler_Create adec aval ares (ah\<lparr>useCase := u\<rparr>) r st
               = (\<lparr>status = 400, payload = ErrorsPayload errs\<rparr>, st)" for u
      by (rule author_Create_invalid [where adec = adec and r = r and req = req and aval = aval and errs = errs]) (simp_all add: val)
    then show ?thesis by (intro exI allI)
  qed
  then obtain p where all: "\<And>u. author_Handler_Create adec aval ares (ah\<lparr>useCase := u\<rparr>) r st
               = (\<lparr>status = 400, payload = p\<rparr>, st)" by blast
  from all [of "useCase ah"] have this_one: "author_Handler_Create adec aval ares ah r st
               = (\<lparr>status = 400, payload = p\<rparr>, st)" by simp
  show "status (fst (author_Handler_Create adec aval ares ah r st)) = 400"
    by (simp add: this_one)
  show "snd (author_Handler_Create adec aval ares ah r st) = st"
    by (simp add: this_one)
  show "author_Handler_Create adec aval ares (ah\<lparr>useCase := au\<rparr>) r st
          = author_Handler_Create adec aval ares ah r st"
    unfolding this_one by (rule all)
next
  assume ok: "adec (r_Body r) = Inr areq \<and> aval (validate ah) areq = None"
  show "snd (author_Handler_Create adec aval ares ah r st)
        = snd (auc_Create (useCase ah) (r_Context r) areq st)"
    by (rule author_Create_valid [where adec = adec and r = r and req = areq and aval = aval]) (simp_all add: ok)
qed

theorem Create_rejects_before_use_case_witness:
  "status (fst (book_Handler_Create (example_book_decode ''T'') example_book_validate id
       \<lparr>useCase = counting_book_usecase, validate = ()\<rparr> (url_request [] ''{'') 0)) = 400
   \<and> snd (book_Handler_Create (example_book_decode ''T'') example_book_validate id
       \<lparr>useCase = counting_book_usecase, validate = ()\<rparr> (url_request [] ''{'') 0) = 0
   \<and> status (fst (book_Handler_Create (example_book_decode []) example_book_validate id
       \<lparr>useCase = counting_book_usecase, validate = ()\<rparr> (url_request [] []) 0)) = 400
   \<and> snd (book_Handler_Create (example_book_decode []) example_book_validate id
       \<lparr>useCase = counting_book_usecase, validate = ()\<rparr> (url_request [] []) 0) = 0
   \<and> snd (book_Handler_Create (example_book_decode ''T'') example_book_validate id
       \<lparr>useCase = counting_book_usecase, validate = ()\<rparr> (url_request [] []) 0) = 1
   \<and> status (fst (author_Handler_Create (example_author_decode ''Ann'') example_author_validate id
       \<lparr>useCase = counting_author_usecase, validate = ()\<rparr> (url_request [] ''{'') 0)) = 400
   \<and> snd (author_Handler_Create (example_author_decode ''Ann'') example_author_validate id
       \<lparr>useCase = counting_author_usecase, validate = ()\<rparr> (url_request [] ''{'') 0) = 0
   \<and> status (fst (author_Handler_Create (example_author_decode []) example_author_validate id
       \<lparr>useCase = counting_author_usecase, validate = ()\<rparr> (url_request [] []) 0)) = 400
   \<and> snd (author_Handler_Create (example_author_decode []) example_author_validate id
       \<lparr>useCase = counting_author_usecase, validate = ()\<rparr> (url_request [] []) 0) = 0
   \<and> snd (author_Handler_Create (example_author_decode ''Ann'') example_author_validate id
       \<lparr>useCase = counting_author_usecase, validate = ()\<rparr> (url_request [] []) 0) = 1"
proof -
  let ?bh = "\<lparr>useCase = counting_book_usecase, validate = ()\<rparr>"
  let ?ah = "\<lparr>useCase = counting_author_usecase, validate = ()\<rparr>"
  let ?breq = "\<lparr>cr_Title = ''T'', cr_PublishedDate = ''2020'', cr_ImageURL = [],
               cr_Description = ''D''\<rparr>"
  let ?bempty = "\<lparr>cr_Title = [], cr_PublishedDate = ''2020'', cr_ImageURL = [],
               cr_Description = ''D''\<rparr>"
  let ?areq = "\<lparr>acr_FirstName = ''Ann'', acr_MiddleName = [], acr_LastName = ''Lee'',
               acr_Books = []\<rparr>"
  let ?aempty = "\<lparr>acr_FirstName = [], acr_MiddleName = [], acr_LastName = ''Lee'',
               acr_Books = []\<rparr>"
  have bad_b: "example_book_decode ''T'' (r_Body (url_request [] ''{''))
                 = Inl (New ''unexpected end of JSON input'')"
    and bad_a: "example_author_decode ''Ann'' (r_Body (url_request [] ''{''))
                 = Inl (New ''unexpected end of JSON input'')"
    by (simp_all add: example_book_decode_def example_author_decode_def url_request_def)
  have inv_b: "example_book_decode [] (r_Body (url_request [] [])) = Inr ?bempty
                 \<and> example_book_validate (validate ?bh) ?bempty = Some [''Title is required'']"
    and inv_a: "example_author_decode [] (r_Body (url_request [] [])) = Inr ?aempty
                 \<and> example_author_validate (validate ?ah) ?aempty = Some [''FirstName is required'']"
    by (simp_all add: example_book_decode_def example_author_decode_def url_request_def
        example_book_validate_def example_author_validate_def)
  have ok_b: "example_book_decode ''T'' (r_Body (url_request [] [])) = Inr ?breq
                 \<and> example_book_validate (validate ?bh) ?breq = None"
    and ok_a: "example_author_decode ''Ann'' (r_Body (url_request [] [])) = Inr ?areq
                 \<and> example_author_validate (validate ?ah) ?areq = None"
    by (simp_all add: example_book_decode_def example_author_decode_def url_request_def
        example_book_validate_def example_author_validate_def)
  have call_b: "snd (uc_Create (useCase ?bh) (r_Context (url_request [] [])) ?breq 0) = 1"
    and call_a: "snd (auc_Create (useCase ?ah) (r_Context (url_request [] [])) ?areq 0) = 1"
    by (simp_all add: counting_book_usecase_def counting_author_usecase_def)
  note t = Create_rejects_before_use_case
      [where bval = example_book_validate and bres = id and bh = ?bh
         and aval = example_author_validate and ares = id and ah = ?ah and st = 0]
  from t [where bdec = "example_book_decode ''T''" and adec = "example_author_decode ''Ann''"
            and r = "url_request [] ''{''" and derr = "New ''unexpected end of JSON input''"]
       bad_b bad_a
  have c1: "status (fst (book_Handler_Create (example_book_decode ''T'') example_book_validate id
       ?bh (url_request [] ''{'') 0)) = 400
   \<and> snd (book_Handler_Create (example_book_decode ''T'') example_book_validate id
       ?bh (url_request [] ''{'') 0) = 0
   \<and> status (fst (author_Handler_Create (example_author_decode ''Ann'') example_author_validate id
       ?ah (url_request [] ''{'') 0)) = 400
   \<and> snd (author_Handler_Create (example_author_decode ''Ann'') example_author_validate id
       ?ah (url_request [] ''{'') 0) = 0"
    by blast
  from t [where bdec = "example_book_decode []" and adec = "example_author_decode []"
            and r = "url_request [] []"]
       inv_b inv_a
  have c2: "status (fst (book_Handler_Create (example_book_decode []) example_book_validate id
       ?bh (url_request [] []) 0)) = 400
   \<and> snd (book_Handler_Create (example_book_decode []) example_book_validate id
       ?bh (url_request [] []) 0) = 0
   \<and> status (fst (author_Handler_Create (example_author_decode []) example_author_validate id
       ?ah (url_request [] []) 0)) = 400
   \<and> snd (author_Handler_Create (example_author_decode []) example_author_validate id
       ?ah (url_request [] []) 0) = 0"
    by blast
  from t [where bdec = "example_book_decode ''T''" and adec = "example_author_decode ''Ann''"
            and r = "url_request [] []" and breq = ?breq and areq = ?areq]
       ok_b ok_a call_b call_a
  have c3: "snd (book_Handler_Create (example_book_decode ''T'') example_book_validate id
       ?bh (url_request [] []) 0) = 1
   \<and> snd (author_Handler_Create (example_author_decode ''Ann'') example_author_validate id
       ?ah (url_request [] []) 0) = 1"
    by simp
  from c1 c2 c3 show ?thesis by blast
qed

text \<open>
  C5. The book \<open>Get\<close> handler maps errors to statuses in one pass. For every request and
  use-case: when parsing the \<open>bookID\<close> path parameter fails, the response is status 400
  and the use-case is not called; when the use-case \<open>Read\<close> fails with an error that is
  \<open>sql.ErrNoRows\<close> (or wraps it), the response is status 400; when it fails with any other
  error, status 500; when it succeeds, status 200 with the resource of the book. In the
  last three cases the state is the one that single \<open>Read\<close> call left.
\<close>

theorem book_Get_status_mapping:
  "(param r ''bookID'' = (bookID, Some perr) \<longrightarrow>
      book_Handler_Get param book_Resource h r st =
        (\<lparr>status = 400, payload = ErrorPayload (Some ErrBadRequest)\<rparr>, st))
   \<and> (param r ''bookID'' = (bookID, None)
        \<and> uc_Read (useCase h) Background bookID st = ((b, Some err), st')
        \<and> errors_Is err ErrNoRows \<longrightarrow>
      book_Handler_Get param book_Resource h r st =
        (\<lparr>status = 400, payload = ErrorPayload (Some (New ''no book is found for this ID''))\<rparr>,
         st'))
   \<and> (param r ''bookID'' = (bookID, None)
        \<and> uc_Read (useCase h) Background bookID st = ((b, Some err), st')
        \<and> \<not> errors_Is err ErrNoRows \<longrightarrow>
      book_Handler_Get param book_Resource h r st =
        (\<lparr>status = 500, payload = ErrorPayload None\<rparr>, st'))
   \<and> (param r ''bookID'' = (bookID, None)
        \<and> uc_Read (useCase h) Background bookID st = ((b, None), st') \<longrightarrow>
      book_Handler_Get param book_Resource h r st =
        (\<lparr>status = 200, payload = JsonPayload (book_Resource b)\<rparr>, st'))"
  by (simp add: book_Handler_Get_def respond_Error_def respond_Json_def StatusOK_def
      StatusBadRequest_def StatusInternalServerError_def)

theorem book_Get_status_mapping_witness:
  "book_Handler_Get example_param id \<lparr>useCase = counting_book_usecase, validate = ()\<rparr>
       (url_request [] []) 0
     = (\<lparr>status = 400, payload = ErrorPayload (Some ErrBadRequest)\<rparr>, 0)
   \<and> book_Handler_Get example_param id \<lparr>useCase = counting_book_usecase, validate = ()\<rparr>
       (url_request ''abc'' []) 0
     = (\<lparr>status = 400, payload = ErrorPayload (Some (New ''no book is found for this ID''))\<rparr>, 1)
   \<and> book_Handler_Get example_param id \<lparr>useCase = counting_book_usecase, validate = ()\<rparr>
       (url_request ''ab'' []) 0
     = (\<lparr>status = 500, payload = ErrorPayload None\<rparr>, 1)
   \<and> book_Handler_Get example_param id \<lparr>useCase = counting_book_usecase, validate = ()\<rparr>
       (url_request ''a'' []) 0
     = (\<lparr>status = 200, payload = JsonPayload (Some example_book)\<rparr>, 1)"
proof -
  let ?h = "\<lparr>useCase = counting_book_usecase, validate = ()\<rparr>"
  have p0: "example_param (url_request [] []) ''bookID'' = (0, Some (New ''invalid syntax''))"
    by (simp add: example_param_def url_request_def)
  have p3: "example_param (url_request ''abc'' []) ''bookID'' = (3, None)"
    by (simp add: example_param_def url_request_def)
  have p2: "example_param (url_request ''ab'' []) ''bookID'' = (2, None)"
    by (simp add: example_param_def url_request_def)
  have p1: "example_param (url_request ''a'' []) ''bookID'' = (1, None)"
    by (simp add: example_param_def url_request_def)
  have r3: "uc_Read (useCase ?h) Background 3 0 = ((None, Some (Wrap ''book'' ErrNoRows)), 1)"
    by (simp add: counting_book_usecase_def)
  have r2: "uc_Read (useCase ?h) Background 2 0 = ((None, Some (DBError ''connection refused'')), 1)"
    by (simp add: counting_book_usecase_def)
  have r1: "uc_Read (useCase ?h) Background 1 0 = ((Some example_book, None), 1)"
    by (simp add: counting_book_usecase_def)
  have e3: "errors_Is (Wrap ''book'' ErrNoRows) ErrNoRows" by simp
  have e2: "\<not> errors_Is (DBError ''connection refused'') ErrNoRows" by simp
  note t = book_Get_status_mapping [where param = example_param and book_Resource = id
      and h = ?h and st = 0]
  from t [where r = "url_request [] []" and bookID = 0 and perr = "New ''invalid syntax''"] p0
  have c0: "book_Handler_Get example_param id ?h (url_request [] []) 0
     = (\<lparr>status = 400, payload = ErrorPayload (Some ErrBadRequest)\<rparr>, 0)" by blast
  from t [where r = "url_request ''abc'' []" and bookID = 3 and b = None
      and err = "Wrap ''book'' ErrNoRows" and st' = 1] p3 r3 e3
  have c3: "book_Handler_Get example_param id ?h (url_request ''abc'' []) 0
     = (\<lparr>status = 400, payload = ErrorPayload (Some (New ''no book is found for this ID''))\<rparr>, 1)"
    by blast
  from t [where r = "url_request ''ab'' []" and bookID = 2 and b = None
      and err = "DBError ''connection refused''" and st' = 1] p2 r2 e2
  have c2: "book_Handler_Get example_param id ?h (url_request ''ab'' []) 0
     = (\<lparr>status = 500, payload = ErrorPayload None\<rparr>, 1)"
    by blast
  from t [where r = "url_request ''a'' []" and bookID = 1 and b = "Some example_book" and st' = 1]
    p1 r1
  have c1: "book_Handler_Get example_param id ?h (url_request ''a'' []) 0
     = (\<lparr>status = 200, payload = JsonPayload (Some example_book)\<rparr>, 1)"
    by simp
  from c0 c3 c2 c1 show ?thesis by blast
qed

text \<open>
  C6. The book use-case forwards the non-write operations: for every use-case, context,
  argument and repository state, use-case \<open>List\<close>, \<open>Read\<close>, \<open>Delete\<close> and \<open>Search\<close> return
  exactly the result (and leave exactly the state) of the repository's \<open>List\<close>, \<open>Read\<close>,
  \<open>Delete\<close> and \<open>Search\<close> on the same context and argument.
\<close>

theorem BookUseCase_forwards:
  "BookUseCase_List u ctx f st = repo_List (bookRepo u) ctx f st
   \<and> BookUseCase_Read u ctx bookID st = repo_Read (bookRepo u) ctx bookID st
   \<and> BookUseCase_Delete u ctx bookID st = repo_Delete (bookRepo u) ctx bookID st
   \<and> BookUseCase_Search u ctx f st = repo_Search (bookRepo u) ctx f st"
  by (simp add: BookUseCase_List_def BookUseCase_Read_def BookUseCase_Delete_def
      BookUseCase_Search_def)

text \<open>
  C7, as amended. The schema relates Book and Author many-to-many: \<open>Book.Edges\<close> declares
  the edge \<open>authors\<close> to Author, \<open>Author.Edges\<close> declares \<open>books\<close> as its inverse, and
  neither is marked unique, so an Author has many Books and a Book may have many Authors.
\<close>

theorem schema_relation_many_to_many:
  "Book_Edges =
     [\<lparr>builder = To, edge_name = ''authors'', edge_type = ''Author'', edge_ref = None,
       edge_unique = False\<rparr>]
   \<and> Author_Edges =
     [\<lparr>builder = From, edge_name = ''books'', edge_type = ''Book'', edge_ref = Some ''authors'',
       edge_unique = False\<rparr>]
   \<and> inverses_of ''Book'' (Book_Edges ! 0) Author_Edges = [Author_Edges ! 0]
   \<and> relation (Book_Edges ! 0) (Author_Edges ! 0) = M2M"
  by (simp add: Book_Edges_def Author_Edges_def edge_To_def edge_From_def Ref_def
      inverses_of_def relation_def)

text \<open>
  The claim as first stated, each Book belonging to exactly one Author, fails: the edge
  from Book to Author is not unique, and the relation the ORM reads off is not
  many-to-one.
\<close>

theorem schema_one_to_many_counterexample:
  "\<not> edge_unique (Book_Edges ! 0) \<and> relation (Book_Edges ! 0) (Author_Edges ! 0) \<noteq> M2O"
  by (simp add: Book_Edges_def Author_Edges_def edge_To_def edge_From_def Ref_def relation_def)

text \<open>
  C8. \<open>repository.List\<close> builds its query from the filter. The query's predicates are
  the first-name, middle-name and last-name predicates, each there exactly when its
  filter field is non-empty, followed by the not-deleted predicate; each name predicate
  holds of a row when the column contains the given string, letter case ignored. The
  query's limit and offset are the filter's. Its order is, entry by entry of the sort
  map, one ordering for an entry on \<open>first_name\<close>, \<open>last_name\<close>, \<open>created_at\<close> or
  \<open>updated_at\<close>, ascending when the direction is \<open>ASC\<close> and descending otherwise, and
  nothing for any other key. That query is the one \<open>List\<close> runs: once the count has
  succeeded, \<open>List\<close> returns the authors the query returns, mapped to the response
  struct, or the query's error.
\<close>

theorem List_query_translation:
  "predicates (List_authors_query f) =
      (if f_FirstName f = [] then [] else [FirstNameContainsFold (f_FirstName f)])
      @ (if f_MiddleName f = [] then [] else [MiddleNameContainsFold (f_MiddleName f)])
      @ (if f_LastName f = [] then [] else [LastNameContainsFold (f_LastName f)])
      @ [DeletedAtIsNil]
   \<and> (holds (FirstNameContainsFold v) a
        \<longleftrightarrow> (\<exists>pre post. map to_lower (a_FirstName a) = pre @ map to_lower v @ post))
   \<and> (holds (MiddleNameContainsFold v) a
        \<longleftrightarrow> (\<exists>pre post. map to_lower (a_MiddleName a) = pre @ map to_lower v @ post))
   \<and> (holds (LastNameContainsFold v) a
        \<longleftrightarrow> (\<exists>pre post. map to_lower (a_LastName a) = pre @ map to_lower v @ post))
   \<and> ctx_Limit (List_authors_query f) = Some (f_Limit f)
   \<and> ctx_Offset (List_authors_query f) = Some (f_Offset f)
   \<and> q_order (List_authors_query f) = authorOrder (f_Sort f)
   \<and> authorOrder sorts = concat (map sort_entry_order sorts)
   \<and> (Query_Count db List_total_query = Inr n \<longrightarrow>
        author_repository_List ctx f db =
          (case Query_All db (List_authors_query f) of
             Inl err \<Rightarrow> ([], 0, Some (Wrap ''get author records'' err))
           | Inr authors \<Rightarrow>
               (map (\<lambda>a. to_author_Schema (a_row a) (map to_book_Schema (Edges_Books a))) authors,
                n, None)))"
proof (intro conjI impI)
  show "predicates (List_authors_query f) =
      (if f_FirstName f = [] then [] else [FirstNameContainsFold (f_FirstName f)])
      @ (if f_MiddleName f = [] then [] else [MiddleNameContainsFold (f_MiddleName f)])
      @ (if f_LastName f = [] then [] else [LastNameContainsFold (f_LastName f)])
      @ [DeletedAtIsNil]"
    by (simp add: List_authors_query_eq predicateUser_eq)
  show "holds (FirstNameContainsFold v) a
        \<longleftrightarrow> (\<exists>pre post. map to_lower (a_FirstName a) = pre @ map to_lower v @ post)"
    by (simp only: holds.simps ContainsFold_iff)
  show "holds (MiddleNameContainsFold v) a
        \<longleftrightarrow> (\<exists>pre post. map to_lower (a_MiddleName a) = pre @ map to_lower v @ post)"
    by (simp only: holds.simps ContainsFold_iff)
  show "holds (LastNameContainsFold v) a
        \<longleftrightarrow> (\<exists>pre post. map to_lower (a_LastName a) = pre @ map to_lower v @ post)"
    by (simp only: holds.simps ContainsFold_iff)
  show "ctx_Limit (List_authors_query f) = Some (f_Limit f)"
    by (simp add: List_authors_query_eq)
  show "ctx_Offset (List_authors_query f) = Some (f_Offset f)"
    by (simp add: List_authors_query_eq)
  show "q_order (List_authors_query f) = authorOrder (f_Sort f)"
    by (simp add: List_authors_query_eq)
  show "authorOrder sorts = concat (map sort_entry_order sorts)"
    by (rule authorOrder_concat)
next
  assume "Query_Count db List_total_query = Inr n"
  then show "author_repository_List ctx f db =
          (case Query_All db (List_authors_query f) of
             Inl err \<Rightarrow> ([], 0, Some (Wrap ''get author records'' err))
           | Inr authors \<Rightarrow>
               (map (\<lambda>a. to_author_Schema (a_row a) (map to_book_Schema (Edges_Books a))) authors,
                n, None))"
    by (simp add: author_repository_List_def)
qed

theorem List_query_translation_witness:
  "map s_ID (fst (author_repository_List Background example_sorted_filter example_db)) = [2]
   \<and> predicates (List_authors_query example_filter) = [FirstNameContainsFold ''an'', DeletedAtIsNil]
   \<and> authorOrder (f_Sort example_sorted_filter) = [ByLastName OrderDesc]"
proof -
  let ?q = "Query_All example_db (List_authors_query example_sorted_filter)"
  have cnt: "Query_Count example_db List_total_query = Inr 2"
    by (simp add: Count_List_total_query example_db_def)
  have run: "?q = Inr (projr ?q)"
    by code_simp
  have ids: "map s_ID (map (\<lambda>a. to_author_Schema (a_row a) (map to_book_Schema (Edges_Books a)))
               (projr ?q)) = [2]"
    by code_simp
  have ord: "concat (map sort_entry_order (f_Sort example_sorted_filter)) = [ByLastName OrderDesc]"
    by code_simp
  from List_query_translation
         [where f = example_sorted_filter and db = example_db and ctx = Background and n = 2
            and sorts = "f_Sort example_sorted_filter"] cnt
  have l: "author_repository_List Background example_sorted_filter example_db =
          (case ?q of
             Inl err \<Rightarrow> ([], 0, Some (Wrap ''get author records'' err))
           | Inr authors \<Rightarrow>
               (map (\<lambda>a. to_author_Schema (a_row a) (map to_book_Schema (Edges_Books a))) authors,
                2, None))"
    and o: "authorOrder (f_Sort example_sorted_filter)
              = concat (map sort_entry_order (f_Sort example_sorted_filter))"
    by blast+
  have "map s_ID (fst (author_repository_List Background example_sorted_filter example_db)) = [2]"
    unfolding l using ids by (subst run) simp
  moreover from List_query_translation [where f = example_filter]
  have "predicates (List_authors_query example_filter) =
          [FirstNameContainsFold ''an'', DeletedAtIsNil]"
    by (simp add: example_filter_def)
  ultimately show ?thesis using o ord by simp
qed

text \<open>
  C9. For every author \<open>List\<close> request that succeeds, the total the repository returns
  is the number of rows of the author table that are not deleted, whatever the name
  filters are, so it is at least the number of rows the filter asks for, and the list
  returned is no longer than that number. The handler reports as \<open>Total\<close> the total the
  use-case returned and as \<open>Size\<close> the length of the list it returned. There are a store
  and a filter with a first name for which the total is larger than the number of rows
  the filter asks for.
\<close>

theorem List_Total_ignores_filters:
  "(snd (snd (author_repository_List ctx f db)) = None \<longrightarrow>
      fst (snd (author_repository_List ctx f db)) =
        int (length (filter (\<lambda>a. a_DeletedAt a = None) (author_table db)))
      \<and> int (length (filter (wanted f) (author_table db)))
          \<le> fst (snd (author_repository_List ctx f db))
      \<and> length (fst (author_repository_List ctx f db))
          \<le> length (filter (wanted f) (author_table db)))
   \<and> (auc_List (useCase h) (WithSpan (r_Context r) ''AuthorList'') (author_Filters (r_URL r)) st
         = ((authors, n, None), st') \<longrightarrow>
       author_Handler_List author_Filters author_Resources h r st =
         (\<lparr>status = 200,
           payload = JsonPayload \<lparr>Data = author_Resources authors,
                                  Meta = \<lparr>Size = int (length authors), Total = n\<rparr>\<rparr>\<rparr>, st'))
   \<and> (\<exists>g s. f_FirstName g \<noteq> [] \<and> snd (snd (author_repository_List ctx g s)) = None
         \<and> int (length (filter (wanted g) (author_table s)))
             < fst (snd (author_repository_List ctx g s)))"
proof (intro conjI impI)
  assume ok: "snd (snd (author_repository_List ctx f db)) = None"
  with List_result_cases [of ctx f db] obtain ns
    where q: "Query_All db (List_authors_query f) = Inr ns"
      and l: "author_repository_List ctx f db =
            (map (\<lambda>a. to_author_Schema (a_row a) (map to_book_Schema (Edges_Books a))) ns,
             int (length (filter (\<lambda>a. a_DeletedAt a = None) (author_table db))), None)"
    by auto
  show "fst (snd (author_repository_List ctx f db)) =
        int (length (filter (\<lambda>a. a_DeletedAt a = None) (author_table db)))"
    by (simp add: l)
  show "int (length (filter (wanted f) (author_table db)))
          \<le> fst (snd (author_repository_List ctx f db))"
    using selected_wanted_le [of f db] by (simp add: l)
  show "length (fst (author_repository_List ctx f db))
          \<le> length (filter (wanted f) (author_table db))"
    using Query_All_length [OF q] by (simp add: l selected_List_authors_query)
next
  assume "auc_List (useCase h) (WithSpan (r_Context r) ''AuthorList'') (author_Filters (r_URL r)) st
         = ((authors, n, None), st')"
  then show "author_Handler_List author_Filters author_Resources h r st =
         (\<lparr>status = 200,
           payload = JsonPayload \<lparr>Data = author_Resources authors,
                                  Meta = \<lparr>Size = int (length authors), Total = n\<rparr>\<rparr>\<rparr>, st')"
    by (simp add: author_Handler_List_def respond_Json_def StatusOK_def)
next
  have "f_FirstName example_filter \<noteq> []" by (simp add: example_filter_def)
  moreover have "snd (snd (author_repository_List ctx example_filter example_db)) = None"
    by (simp add: List_pipeline example_filter_def)
  moreover have "fst (snd (author_repository_List ctx example_filter example_db)) = 2"
    by (simp add: List_pipeline example_filter_def) (simp add: example_db_def)
  moreover have "length (filter (wanted example_filter) (author_table example_db)) = 1"
    by code_simp
  ultimately show "\<exists>g s. f_FirstName g \<noteq> [] \<and> snd (snd (author_repository_List ctx g s)) = None
         \<and> int (length (filter (wanted g) (author_table s)))
             < fst (snd (author_repository_List ctx g s))"
    by (intro exI [of _ example_filter] exI [of _ example_db]) simp
qed

theorem List_Total_ignores_filters_witness:
  "author_Handler_List (\<lambda>url. example_filter) id example_handler example_request example_db =
     (\<lparr>status = 200,
       payload = JsonPayload
         \<lparr>Data = fst (author_repository_List Background example_filter example_db),
          Meta = \<lparr>Size = 1, Total = 2\<rparr>\<rparr>\<rparr>, example_db)
   \<and> length (filter (wanted example_filter) (author_table example_db)) = 1"
proof -
  have ok: "snd (snd (author_repository_List (WithSpan (RequestContext 0) ''AuthorList'') example_filter example_db)) = None"
    by code_simp
  have tot: "fst (snd (author_repository_List (WithSpan (RequestContext 0) ''AuthorList'') example_filter example_db)) = 2"
    by code_simp
  have len: "length (fst (author_repository_List (WithSpan (RequestContext 0) ''AuthorList'') example_filter example_db)) = 1"
    by code_simp
  have same: "fst (author_repository_List (WithSpan (RequestContext 0) ''AuthorList'') example_filter example_db)
      = fst (author_repository_List Background example_filter example_db)"
    by code_simp
  have want: "length (filter (wanted example_filter) (author_table example_db)) = 1"
    by code_simp
  have uc: "auc_List (useCase example_handler) (WithSpan (r_Context example_request) ''AuthorList'')
          ((\<lambda>url. example_filter) (r_URL example_request)) example_db
        = ((fst (author_repository_List Background example_filter example_db), 2, None), example_db)"
    using ok tot same
    by (simp add: example_handler_def example_usecase_def example_request_def prod_eq_iff)
  from List_Total_ignores_filters
         [where h = example_handler and r = example_request and st = example_db
            and author_Filters = "\<lambda>url. example_filter" and author_Resources = id
            and authors = "fst (author_repository_List Background example_filter example_db)"
            and n = 2 and st' = example_db] uc same len want
  show ?thesis by simp
qed

text \<open>
  C10. For every author \<open>Update\<close> of the repository that succeeds, on every store, the
  returned author carries an empty \<open>Books\<close> list, however many books are joined to that
  author in the store.
\<close>

theorem Update_returns_no_books:
  "snd (fst (author_repository_Update ctx a db)) = None \<Longrightarrow>
     \<exists>r. fst (fst (author_repository_Update ctx a db)) = Some r \<and> s_Books r = []"
  unfolding Update_result
  by (cases "filter (\<lambda>r. a_ID r = aur_ID a) (author_table db)")
     (simp_all add: to_author_Schema_def)

theorem Update_returns_no_books_witness:
  "s_Books (the (fst (fst (author_repository_Update Background example_update example_db)))) = []
   \<and> length (load_Books (snd (author_repository_Update Background example_update example_db))
        (hd (author_table
               (snd (author_repository_Update Background example_update example_db))))) = 2
   \<and> length (s_Books (the (fst (author_repository_Read Background 1
        (snd (author_repository_Update Background example_update example_db)))))) = 2"
proof -
  have ok: "snd (fst (author_repository_Update Background example_update example_db)) = None"
    by code_simp
  have linked: "length (load_Books (snd (author_repository_Update Background example_update example_db))
        (hd (author_table
               (snd (author_repository_Update Background example_update example_db))))) = 2"
    by code_simp
  have reread: "length (s_Books (the (fst (author_repository_Read Background 1
        (snd (author_repository_Update Background example_update example_db)))))) = 2"
    by code_simp
  from Update_returns_no_books [OF ok] linked reread show ?thesis by auto
qed

end
